theory Spec2Isabelle
  imports Complex_Main
begin

section \<open>Scalars of the trainer\<close>

text \<open>
  The scalars that \<^verbatim>\<open>main.py\<close> computes with (the cost, the rewards, the baseline) are
  floating-point numbers. They are modelled as a real number or one of the three
  non-finite values of IEEE 754. Finite arithmetic is exact: rounding, overflow to
  infinity and the sign of zero are left out. The non-finite values follow IEEE 754:
  NaN is absorbing, \<open>inf - inf\<close> and \<open>0 * inf\<close> are NaN, and every comparison with NaN
  is false.
\<close>

datatype pyfloat = Fin real | PInf | NInf | NaN

fun fneg :: "pyfloat \<Rightarrow> pyfloat" where
  "fneg (Fin a) = Fin (- a)"
| "fneg PInf = NInf"
| "fneg NInf = PInf"
| "fneg NaN = NaN"

fun fadd :: "pyfloat \<Rightarrow> pyfloat \<Rightarrow> pyfloat" where
  "fadd (Fin a) (Fin b) = Fin (a + b)"
| "fadd NaN y = NaN"
| "fadd x NaN = NaN"
| "fadd PInf NInf = NaN"
| "fadd NInf PInf = NaN"
| "fadd PInf y = PInf"
| "fadd x PInf = PInf"
| "fadd NInf y = NInf"
| "fadd x NInf = NInf"

definition fsub :: "pyfloat \<Rightarrow> pyfloat \<Rightarrow> pyfloat" where
  "fsub x y = fadd x (fneg y)"

fun fmul :: "pyfloat \<Rightarrow> pyfloat \<Rightarrow> pyfloat" where
  "fmul (Fin a) (Fin b) = Fin (a * b)"
| "fmul NaN y = NaN"
| "fmul x NaN = NaN"
| "fmul (Fin a) PInf = (if a = 0 then NaN else if 0 < a then PInf else NInf)"
| "fmul (Fin a) NInf = (if a = 0 then NaN else if 0 < a then NInf else PInf)"
| "fmul PInf (Fin b) = (if b = 0 then NaN else if 0 < b then PInf else NInf)"
| "fmul NInf (Fin b) = (if b = 0 then NaN else if 0 < b then NInf else PInf)"
| "fmul PInf PInf = PInf"
| "fmul NInf NInf = PInf"
| "fmul PInf NInf = NInf"
| "fmul NInf PInf = NInf"

text \<open>\<^verbatim>\<open>x ** 2\<close>\<close>

definition fsq :: "pyfloat \<Rightarrow> pyfloat" where
  "fsq x = fmul x x"

text \<open>\<^verbatim>\<open>x > y\<close>\<close>

fun fgt :: "pyfloat \<Rightarrow> pyfloat \<Rightarrow> bool" where
  "fgt (Fin a) (Fin b) = (b < a)"
| "fgt NaN y = False"
| "fgt x NaN = False"
| "fgt PInf PInf = False"
| "fgt PInf y = True"
| "fgt x PInf = False"
| "fgt NInf y = False"
| "fgt x NInf = True"

text \<open>\<^verbatim>\<open>x <= y\<close>\<close>

fun fle :: "pyfloat \<Rightarrow> pyfloat \<Rightarrow> bool" where
  "fle (Fin a) (Fin b) = (a \<le> b)"
| "fle NaN y = False"
| "fle x NaN = False"
| "fle x PInf = True"
| "fle NInf y = True"
| "fle PInf y = False"
| "fle x NInf = False"

fun finite_float :: "pyfloat \<Rightarrow> bool" where
  "finite_float (Fin a) = True"
| "finite_float x = False"

definition fsum :: "pyfloat list \<Rightarrow> pyfloat" where
  "fsum xs = foldl fadd (Fin 0) xs"

text \<open>
  \<^verbatim>\<open>probs.mean()\<close>, \<^verbatim>\<open>log_probs.mean()\<close> and \<^verbatim>\<open>np.mean(epis_rewards)\<close>: the sum
  divided by the number of elements. The mean of no element is NaN (\<open>0 / 0\<close>), in
  torch and in numpy alike.
\<close>

fun fdivn :: "pyfloat \<Rightarrow> nat \<Rightarrow> pyfloat" where
  "fdivn (Fin a) n = Fin (a / real n)"
| "fdivn x n = x"

definition fmean :: "pyfloat list \<Rightarrow> pyfloat" where
  "fmean xs = (if xs = [] then NaN else fdivn (fsum xs) (length xs))"

section \<open>Python lists, slices and \<^verbatim>\<open>str\<close>\<close>

datatype error =
    ValueError string
  | IndexError
  | UnboundLocalError string
  | Raised string

text \<open>\<^verbatim>\<open>xs[i]\<close>: a negative index counts from the end; out of range raises.\<close>

definition py_index :: "'a list \<Rightarrow> int \<Rightarrow> error + 'a" where
  "py_index xs i =
     (if 0 \<le> i \<and> i < int (length xs) then Inr (xs ! nat i)
      else if i < 0 \<and> - int (length xs) \<le> i then Inr (xs ! nat (int (length xs) + i))
      else Inl IndexError)"

text \<open>\<^verbatim>\<open>xs[i:j]\<close>: both bounds are clipped to the list, a negative one counted from the end.\<close>

definition slice_bound :: "int \<Rightarrow> int \<Rightarrow> int" where
  "slice_bound n i = (if i < 0 then max (i + n) 0 else min i n)"

definition py_slice :: "'a list \<Rightarrow> int \<Rightarrow> int \<Rightarrow> 'a list" where
  "py_slice xs i j =
     (let lo = slice_bound (int (length xs)) i;
          hi = slice_bound (int (length xs)) j
      in take (nat (hi - lo)) (drop (nat lo) xs))"

text \<open>\<^verbatim>\<open>str(n)\<close> of an integer: its decimal digits, after a minus sign when negative.\<close>

fun str_nat :: "nat \<Rightarrow> string" where
  "str_nat n =
     (if n < 10 then [''0123456789'' ! n]
      else str_nat (n div 10) @ [''0123456789'' ! (n mod 10)])"

declare str_nat.simps [simp del]

definition str_int :: "int \<Rightarrow> string" where
  "str_int i = (if i < 0 then CHR ''-'' # str_nat (nat (- i)) else str_nat (nat i))"

text \<open>\<^verbatim>\<open>range(lo, hi)\<close>\<close>

definition py_range :: "int \<Rightarrow> int \<Rightarrow> int list" where
  "py_range lo hi = [lo..hi - 1]"

section \<open>The collaborators of \<^verbatim>\<open>main.py\<close>\<close>

text \<open>
  The policy parameters are symbolic: the freshly built network of line 94, or the
  parameters left by one \<^verbatim>\<open>optimizer.step()\<close> after \<^verbatim>\<open>cost.backward()\<close> on a cost
  of the given value. What the network computes from them is the world's \<open>dsn\<close>.
\<close>

datatype params = Initial | Stepped params pyfloat

type_synonym row = "pyfloat list"

text \<open>
  Calls that leave \<^verbatim>\<open>main.py\<close>, in the order they are made: \<^verbatim>\<open>model(seq)\<close>,
  \<^verbatim>\<open>m.sample()\<close>, \<^verbatim>\<open>compute_reward(..., picks=k)\<close>, \<^verbatim>\<open>optimizer.zero_grad()\<close>,
  \<^verbatim>\<open>cost.backward()\<close>, \<^verbatim>\<open>optimizer.step()\<close>, the \<^verbatim>\<open>print\<close> of line 145 (epoch,
  maximum epoch, mean reward) and \<^verbatim>\<open>save_checkpoint\<close>.
\<close>

datatype event =
    Forward
  | Sample
  | Reward int
  | ZeroGrad
  | Backward pyfloat
  | OptStep
  | Print int int pyfloat
  | Save params

text \<open>
  Everything \<^verbatim>\<open>main.py\<close> imports or reads is a field of the world. \<^verbatim>\<open>models.py\<close>,
  \<^verbatim>\<open>rewards.py\<close> and \<^verbatim>\<open>utils.py\<close> are not part of the sources, and torch is a
  library: their functions are parameters, and each one that can raise returns an error.
  Sampling is given the epoch and the episode, which stand for the state of the random
  generator.
  \<^item> \<open>files\<close>: \<^verbatim>\<open>sorted(glob.glob(fpath))\<close> with the array \<^verbatim>\<open>np.load\<close> reads from each;
  \<^item> \<open>torch_load\<close>: \<^verbatim>\<open>torch.load\<close> followed by \<^verbatim>\<open>model.load_state_dict\<close>;
  \<^item> \<open>dsn\<close>: \<^verbatim>\<open>model(seq)\<close>;
  \<^item> \<open>bernoulli\<close>: the argument check of \<^verbatim>\<open>Bernoulli(probs)\<close>;
  \<^item> \<open>sample\<close>: \<^verbatim>\<open>m.sample()\<close>; \<open>log_prob\<close>: \<^verbatim>\<open>m.log_prob(actions)\<close>;
  \<^item> \<open>compute_reward\<close>: \<^verbatim>\<open>compute_reward(seq, actions, probs, nc, picks)\<close>;
  \<^item> \<open>file_open\<close>, \<open>file_write\<close>, \<open>file_close\<close>: \<^verbatim>\<open>open(path, 'w')\<close>,
    \<^verbatim>\<open>f.write(text)\<close> and \<^verbatim>\<open>f.close()\<close> on the file of that path, each with the
    \<^verbatim>\<open>OSError\<close> it raises, if any. The shell commands of lines 119 and 120 never
    raise; a directory they failed to make shows as a \<open>file_open\<close> that raises.

  Modelled from the spec: what \<^verbatim>\<open>compute_reward\<close> returns is not in the sources. The
  specification gives it as a scalar reward and the ordered list of the selected
  indices, so the picks are a list of integers here; picks of another type, which
  line 148 would refuse with a \<^verbatim>\<open>TypeError\<close>, are outside this type.
\<close>

record world =
  files :: "(string \<times> row) list"
  torch_load :: "string \<Rightarrow> error + params"
  dsn :: "params \<Rightarrow> row list \<Rightarrow> error + pyfloat list"
  bernoulli :: "pyfloat list \<Rightarrow> error option"
  sample :: "int \<Rightarrow> int \<Rightarrow> pyfloat list \<Rightarrow> bool list"
  log_prob :: "pyfloat list \<Rightarrow> bool list \<Rightarrow> pyfloat list"
  compute_reward ::
    "row list \<Rightarrow> bool list \<Rightarrow> pyfloat list \<Rightarrow> int \<Rightarrow> int \<Rightarrow> error + pyfloat \<times> int list"
  file_open :: "string \<Rightarrow> error option"
  file_write :: "string \<Rightarrow> string \<Rightarrow> error option"
  file_close :: "string \<Rightarrow> error option"

text \<open>The command-line arguments the training loop reads.\<close>

record args =
  resume :: string
  max_epoch :: int
  num_episode :: int
  start_idx :: int
  number_of_picks :: int
  classes :: int
  beta :: pyfloat

section \<open>The state of a run\<close>

text \<open>
  The variables of \<^verbatim>\<open>main\<close> that live across epochs, the directory
  \<^verbatim>\<open>./selection/\<close> (file name to content) and the calls made so far. \<open>start_epoch\<close> is
  \<open>None\<close> while the name is unbound.
\<close>

record state =
  model :: params
  start_epoch :: "int option"
  baseline :: pyfloat
  best_reward :: pyfloat
  best_pi :: "int list"
  selection :: "string \<rightharpoonup> string"
  trace :: "event list"

text \<open>How a run ends: before the training loop is reached, by an exception later, or normally.\<close>

datatype outcome = SetupFailed error | Aborted error state | Finished state

definition emit :: "event \<Rightarrow> state \<Rightarrow> state" where
  "emit e st = st\<lparr>trace := trace st @ [e]\<rparr>"

section \<open>The training loop\<close>

text \<open>Lines 77 to 92: the paths, and the rows \<^verbatim>\<open>features_all[start:start+dist,:]\<close>.\<close>

definition fpaths :: "world \<Rightarrow> string list" where
  "fpaths w = map fst (files w)"

definition features :: "world \<Rightarrow> args \<Rightarrow> row list" where
  "features w a =
     py_slice (map snd (files w)) (start_idx a) (start_idx a + int (length (files w)))"

text \<open>
  Lines 77 to 120. \<^verbatim>\<open>np.stack\<close> raises on no array and on arrays of different shapes.
  \<open>start_epoch\<close> is bound in the branch without a resume path only. The two shell
  commands of lines 119 and 120 leave \<^verbatim>\<open>./selection/\<close> empty.
\<close>

definition main_init :: "world \<Rightarrow> args \<Rightarrow> error + state" where
  "main_init w a =
     (if files w = [] then Inl (ValueError ''need at least one array to stack'')
      else if \<not> list_all (\<lambda>r. length r = length (snd (hd (files w)))) (map snd (files w))
        then Inl (ValueError ''all input arrays must have the same shape'')
      else
        (case (if resume a \<noteq> []
               then (case torch_load w (resume a) of
                       Inl e \<Rightarrow> Inl e
                     | Inr checkpoint \<Rightarrow> Inr (checkpoint, None))
               else Inr (Initial, Some 0)) of
           Inl e \<Rightarrow> Inl e
         | Inr (m, se) \<Rightarrow>
             Inr \<lparr>model = m, start_epoch = se, baseline = Fin 0, best_reward = Fin 0,
                  best_pi = [], selection = Map.empty, trace = []\<rparr>))"

text \<open>Lines 134 to 136.\<close>

definition update_best :: "pyfloat \<Rightarrow> int list \<Rightarrow> state \<Rightarrow> state" where
  "update_best reward pick_idxs st =
     (if fgt reward (best_reward st)
      then st\<lparr>best_reward := reward, best_pi := pick_idxs\<rparr>
      else st)"

text \<open>
  Lines 131 to 133: one episode samples the actions, takes their log-probabilities and
  asks for the reward; the result is \<open>(log_probs, reward, pick_idxs)\<close>.
\<close>

definition run_episode ::
  "world \<Rightarrow> args \<Rightarrow> pyfloat list \<Rightarrow> int \<Rightarrow> int \<Rightarrow> error + pyfloat list \<times> pyfloat \<times> int list" where
  "run_episode w a probs epoch i =
     (let actions = sample w epoch i probs;
          log_probs = log_prob w probs actions
      in case compute_reward w (features w a) actions probs (classes a) (number_of_picks a) of
           Inl e \<Rightarrow> Inl e
         | Inr (reward, pick_idxs) \<Rightarrow> Inr (log_probs, reward, pick_idxs))"

text \<open>
  Lines 130 to 139: the episodes of one epoch, over \<^verbatim>\<open>range(args.num_episode)\<close>. The
  accumulators are the state, \<open>cost\<close> and \<open>epis_rewards\<close>.
\<close>

fun episodes ::
  "world \<Rightarrow> args \<Rightarrow> pyfloat list \<Rightarrow> int \<Rightarrow> int list \<Rightarrow> state \<times> pyfloat \<times> pyfloat list
     \<Rightarrow> error option \<times> state \<times> pyfloat \<times> pyfloat list" where
  "episodes w a probs epoch [] acc = (None, acc)"
| "episodes w a probs epoch (i # rest) (st, cost, epis_rewards) =
     (case run_episode w a probs epoch i of
        Inl e \<Rightarrow>
          (Some e, emit (Reward (number_of_picks a)) (emit Sample st), cost, epis_rewards)
      | Inr (log_probs, reward, pick_idxs) \<Rightarrow>
          (let st1 = update_best reward pick_idxs
                       (emit (Reward (number_of_picks a)) (emit Sample st));
               expected_reward = fmul (fmean log_probs) (fsub reward (baseline st1))
           in episodes w a probs epoch rest
                (st1, fsub cost expected_reward, epis_rewards @ [reward])))"

text \<open>
  Lines 147 and 148: for each best pick the path \<^verbatim>\<open>fpaths[start+idx]\<close> is looked up and
  written with a newline. \<open>wr\<close> is the write on the open file; \<open>content\<close> is what the
  file holds so far.
\<close>

fun write_lines ::
  "(string \<Rightarrow> error option) \<Rightarrow> string list \<Rightarrow> int \<Rightarrow> int list \<Rightarrow> string
     \<Rightarrow> error option \<times> string" where
  "write_lines wr fps start [] content = (None, content)"
| "write_lines wr fps start (idx # rest) content =
     (case py_index fps (start + idx) of
        Inl e \<Rightarrow> (Some e, content)
      | Inr p \<Rightarrow>
          (case wr (p @ [CHR 0x0A]) of
             Some e \<Rightarrow> (Some e, content)
           | None \<Rightarrow> write_lines wr fps start rest (content @ p @ [CHR 0x0A])))"

definition selection_path :: "args \<Rightarrow> string" where
  "selection_path a = ''selection/'' @ str_int (start_idx a) @ ''.txt''"

text \<open>
  Lines 146 to 149. Opening the file for writing empties it; an exception of the lookup
  or of a write leaves what was written before it.
\<close>

definition write_selection :: "world \<Rightarrow> args \<Rightarrow> state \<Rightarrow> error option \<times> state" where
  "write_selection w a st =
     (case file_open w (selection_path a) of
        Some e \<Rightarrow> (Some e, st)
      | None \<Rightarrow>
          (case write_lines (file_write w (selection_path a)) (fpaths w) (start_idx a)
                  (best_pi st) [] of
             (Some e, content) \<Rightarrow>
               (Some e, st\<lparr>selection := (selection st)(selection_path a \<mapsto> content)\<rparr>)
           | (None, content) \<Rightarrow>
               (file_close w (selection_path a),
                st\<lparr>selection := (selection st)(selection_path a \<mapsto> content)\<rparr>)))"

text \<open>Lines 141 to 143.\<close>

definition optimizer_update :: "pyfloat \<Rightarrow> state \<Rightarrow> state" where
  "optimizer_update cost st =
     (emit OptStep (emit (Backward cost) (emit ZeroGrad st)))\<lparr>model := Stepped (model st) cost\<rparr>"

text \<open>Line 144.\<close>

definition update_baseline :: "pyfloat list \<Rightarrow> state \<Rightarrow> state" where
  "update_baseline epis_rewards st =
     st\<lparr>baseline := fadd (fmul (Fin 0.9) (baseline st)) (fmul (Fin 0.1) (fmean epis_rewards))\<rparr>"

text \<open>Lines 123 to 149: one epoch.\<close>

definition train_epoch :: "world \<Rightarrow> args \<Rightarrow> int \<Rightarrow> state \<Rightarrow> error option \<times> state" where
  "train_epoch w a epoch st =
     (case dsn w (model st) (features w a) of
        Inl e \<Rightarrow> (Some e, emit Forward st)
      | Inr probs \<Rightarrow>
          (case bernoulli w probs of
             Some e \<Rightarrow> (Some e, emit Forward st)
           | None \<Rightarrow>
               (case episodes w a probs epoch (py_range 0 (num_episode a))
                       (emit Forward st,
                        fmul (beta a) (fsq (fsub (fmean probs) (Fin 0.5))), []) of
                  (Some e, st1, cost, epis_rewards) \<Rightarrow> (Some e, st1)
                | (None, st1, cost, epis_rewards) \<Rightarrow>
                    write_selection w a
                      (emit (Print (epoch + 1) (max_epoch a) (fmean epis_rewards))
                         (update_baseline epis_rewards (optimizer_update cost st1))))))"

text \<open>Line 122: the loop over the epochs; an exception ends it.\<close>

fun epochs :: "world \<Rightarrow> args \<Rightarrow> int list \<Rightarrow> state \<Rightarrow> error option \<times> state" where
  "epochs w a [] st = (None, st)"
| "epochs w a (epoch # rest) st =
     (case train_epoch w a epoch st of
        (Some e, st1) \<Rightarrow> (Some e, st1)
      | (None, st1) \<Rightarrow> epochs w a rest st1)"

text \<open>
  \<^verbatim>\<open>main\<close>. Reading \<open>start_epoch\<close> in line 122 while it is unbound raises; after the
  last epoch the parameters are saved (lines 156 to 158).
\<close>

definition main :: "world \<Rightarrow> args \<Rightarrow> outcome" where
  "main w a =
     (case main_init w a of
        Inl e \<Rightarrow> SetupFailed e
      | Inr st \<Rightarrow>
          (case start_epoch st of
             None \<Rightarrow> Aborted (UnboundLocalError ''start_epoch'') st
           | Some s \<Rightarrow>
               (case epochs w a (py_range s (max_epoch a)) st of
                  (Some e, st1) \<Rightarrow> Aborted e st1
                | (None, st1) \<Rightarrow> Finished (emit (Save (model st1)) st1))))"

section \<open>Notions the properties are stated with\<close>

text \<open>
  The cost of an epoch as the specification words it: the regularisation term minus the
  sum of the episodes' terms, each a pair of a mean log-probability and a reward.
\<close>

definition epoch_cost_spec :: "pyfloat \<Rightarrow> pyfloat \<Rightarrow> pyfloat \<Rightarrow> (pyfloat \<times> pyfloat) list \<Rightarrow> pyfloat" where
  "epoch_cost_spec b pm base eps =
     fsub (fmul b (fsq (fsub pm (Fin 0.5)))) (fsum (map (\<lambda>(lp, r). fmul lp (fsub r base)) eps))"

text \<open>
  What a trace shows: the mean rewards printed, the costs handed to \<^verbatim>\<open>backward\<close>, and
  the calls made between two states of a run.
\<close>

definition printed_rewards :: "event list \<Rightarrow> pyfloat list" where
  "printed_rewards es = concat (map (\<lambda>e. case e of Print i n m \<Rightarrow> [m] | _ \<Rightarrow> []) es)"

definition backward_costs :: "event list \<Rightarrow> pyfloat list" where
  "backward_costs es = concat (map (\<lambda>e. case e of Backward c \<Rightarrow> [c] | _ \<Rightarrow> []) es)"

definition new_events :: "state \<Rightarrow> state \<Rightarrow> event list" where
  "new_events st st' = drop (length (trace st)) (trace st')"

text \<open>The best pair is as it was, or the best reward is strictly greater.\<close>

definition improved :: "state \<Rightarrow> state \<Rightarrow> bool" where
  "improved st st' =
     (best_reward st' = best_reward st \<and> best_pi st' = best_pi st
      \<or> fgt (best_reward st') (best_reward st))"

text \<open>
  The rewards the reward function has returned over a stretch of epochs, in the order of
  the episodes, up to the exception that ends the stretch, if one does.
\<close>

fun rewards_of :: "(error + pyfloat list \<times> pyfloat \<times> int list) list \<Rightarrow> pyfloat list" where
  "rewards_of [] = []"
| "rewards_of (Inl e # rest) = []"
| "rewards_of (Inr (log_probs, reward, pick_idxs) # rest) = reward # rewards_of rest"

definition epoch_rewards :: "world \<Rightarrow> args \<Rightarrow> int \<Rightarrow> state \<Rightarrow> pyfloat list" where
  "epoch_rewards w a epoch st =
     (case dsn w (model st) (features w a) of
        Inl e \<Rightarrow> []
      | Inr probs \<Rightarrow>
          (case bernoulli w probs of
             Some e \<Rightarrow> []
           | None \<Rightarrow>
               rewards_of (map (run_episode w a probs epoch) (py_range 0 (num_episode a)))))"

fun run_rewards :: "world \<Rightarrow> args \<Rightarrow> int list \<Rightarrow> state \<Rightarrow> pyfloat list" where
  "run_rewards w a [] st = []"
| "run_rewards w a (epoch # rest) st =
     epoch_rewards w a epoch st @
     (case train_epoch w a epoch st of
        (Some e, st1) \<Rightarrow> []
      | (None, st1) \<Rightarrow> run_rewards w a rest st1)"

text \<open>
  The moving average the baseline is meant to be: \<open>b\<^sub>0 = 0\<close> and
  \<open>b\<^sub>i = 0.9 * b\<^sub>i\<^sub>-\<^sub>1 + 0.1 * r\<^sub>i\<close>.
\<close>

definition ema_step :: "pyfloat \<Rightarrow> pyfloat \<Rightarrow> pyfloat" where
  "ema_step b r = fadd (fmul (Fin 0.9) b) (fmul (Fin 0.1) r)"

definition ema :: "pyfloat list \<Rightarrow> pyfloat" where
  "ema rs = foldl ema_step (Fin 0) rs"

section \<open>A small world to run the model on\<close>

text \<open>
  Three feature files of two classes. The network answers probability \<open>3 / 4\<close> at every
  position, whatever its parameters; the first episode of an epoch samples every
  position and the later ones none; every log-probability is \<open>- 1\<close>; the checkpoint
  holds parameters one step away from the initial ones.

  Modelled from the spec: the reward function of \<^verbatim>\<open>rewards.py\<close> is not in the sources.
  This one refuses a pick count \<open>k \<le> 0\<close> or above the length of the sequence, as the
  specification of the reward function says, and otherwise answers a fixed reward and
  fixed picks for each of the two samples. The files open, take every write and close.
\<close>

definition demo_world :: world where
  "demo_world =
     \<lparr>files = [(''feat/a.npy'', [Fin 1, Fin 0]), (''feat/b.npy'', [Fin 0, Fin 1]),
               (''feat/c.npy'', [Fin 1, Fin 1])],
      torch_load = (\<lambda>path. Inr (Stepped Initial (Fin 7))),
      dsn = (\<lambda>p seq. Inr (map (\<lambda>r. Fin (3 / 4)) seq)),
      bernoulli = (\<lambda>probs. None),
      sample = (\<lambda>epoch i probs. map (\<lambda>p. i = 0) probs),
      log_prob = (\<lambda>probs actions. map (\<lambda>p. Fin (- 1)) probs),
      compute_reward = (\<lambda>seq actions probs nc k.
         if k \<le> 0 \<or> int (length seq) < k then Inl (ValueError ''picks'')
         else if hd actions then Inr (Fin (1 / 2), [0, 2]) else Inr (Fin (3 / 4), [1, 2])),
      file_open = (\<lambda>path. None),
      file_write = (\<lambda>path s. None),
      file_close = (\<lambda>path. None)\<rparr>"

text \<open>
  Two epochs of two episodes; a state at the start of an epoch, with a baseline of
  \<open>1 / 4\<close>; and what the network and the two episodes of an epoch answer.
\<close>

definition demo_args :: args where
  "demo_args =
     \<lparr>resume = [], max_epoch = 2, num_episode = 2, start_idx = 0, number_of_picks = 2,
      classes = 2, beta = Fin (1 / 100)\<rparr>"

definition demo_state :: state where
  "demo_state =
     \<lparr>model = Initial, start_epoch = Some 0, baseline = Fin (1 / 4), best_reward = Fin 0,
      best_pi = [], selection = Map.empty, trace = []\<rparr>"

definition demo_probs :: "pyfloat list" where
  "demo_probs = [Fin (3 / 4), Fin (3 / 4), Fin (3 / 4)]"

definition demo_outs :: "(pyfloat list \<times> pyfloat \<times> int list) list" where
  "demo_outs =
     [([Fin (- 1), Fin (- 1), Fin (- 1)], Fin (1 / 2), [0, 2]),
      ([Fin (- 1), Fin (- 1), Fin (- 1)], Fin (3 / 4), [1, 2])]"

text \<open>The state the small world's run of two epochs ends in.\<close>

definition demo_final :: state where
  "demo_final =
     \<lparr>model = Stepped (Stepped Initial (Fin (2001 / 1600))) (Fin (1801 / 1600)),
      start_epoch = Some 0, baseline = Fin (19 / 160), best_reward = Fin (3 / 4),
      best_pi = [1, 2],
      selection = [''selection/0.txt'' \<mapsto> ''feat/b.npy'' @ [CHR 0x0A] @ ''feat/c.npy'' @ [CHR 0x0A]],
      trace =
        [Forward, Sample, Reward 2, Sample, Reward 2, ZeroGrad, Backward (Fin (2001 / 1600)),
         OptStep, Print 1 2 (Fin (5 / 8)),
         Forward, Sample, Reward 2, Sample, Reward 2, ZeroGrad, Backward (Fin (1801 / 1600)),
         OptStep, Print 2 2 (Fin (5 / 8)),
         Save (Stepped (Stepped Initial (Fin (2001 / 1600))) (Fin (1801 / 1600)))]\<rparr>"

text \<open>
  The small world with a reward function that answers reward zero, with picks, where
  every position is sampled, and a positive reward elsewhere; run with one episode an
  epoch it is only asked where it answers zero.
\<close>

definition zero_world :: world where
  "zero_world =
     demo_world\<lparr>compute_reward := \<lambda>seq actions probs nc k.
       if hd actions then Inr (Fin 0, [0, 1]) else Inr (Fin (3 / 4), [1, 2])\<rparr>"

definition one_episode_args :: args where
  "one_episode_args = demo_args\<lparr>num_episode := 1\<rparr>"

definition fresh_state :: state where
  "fresh_state =
     \<lparr>model = Initial, start_epoch = Some 0, baseline = Fin 0, best_reward = Fin 0,
      best_pi = [], selection = Map.empty, trace = []\<rparr>"

text \<open>The arguments of the small world's run, with a resume path.\<close>

definition resume_args :: args where
  "resume_args = demo_args\<lparr>resume := ''log/model_epoch2.pth.tar''\<rparr>"



text \<open>The small world with a reward function that answers NaN, run for one epoch.\<close>

definition nan_world :: world where
  "nan_world = demo_world\<lparr>compute_reward := \<lambda>seq actions probs nc k. Inr (NaN, [0, 1])\<rparr>"

definition one_epoch_args :: args where
  "one_epoch_args = demo_args\<lparr>max_epoch := 1\<rparr>"

section \<open>Arithmetic of the scalars\<close>

lemma fadd_assoc: "fadd (fadd x y) z = fadd x (fadd y z)"
  by (cases x; cases y; cases z) simp_all

lemma fadd_zero_left: "fadd (Fin 0) x = x"
  by (cases x) simp_all

lemma fadd_zero_right: "fadd x (Fin 0) = x"
  by (cases x) simp_all

lemma fneg_fadd: "fneg (fadd x y) = fadd (fneg x) (fneg y)"
  by (cases x; cases y) simp_all

lemma fsub_fsub: "fsub (fsub c x) y = fsub c (fadd x y)"
  by (simp add: fsub_def fneg_fadd fadd_assoc)

lemma foldl_fadd: "foldl fadd x ys = fadd x (fsum ys)"
proof (induction ys arbitrary: x)
  case Nil
  then show ?case by (simp add: fsum_def fadd_zero_right)
next
  case (Cons y ys)
  have "foldl fadd x (y # ys) = fadd (fadd x y) (fsum ys)"
    using Cons.IH [of "fadd x y"] by simp
  also have "\<dots> = fadd x (fadd y (fsum ys))"
    by (rule fadd_assoc)
  also have "fadd y (fsum ys) = fsum (y # ys)"
    using Cons.IH [of "fadd (Fin 0) y"] by (simp add: fsum_def fadd_zero_left)
  finally show ?case .
qed

lemma fsum_Cons: "fsum (y # ys) = fadd y (fsum ys)"
  using foldl_fadd [of "fadd (Fin 0) y" ys] by (simp add: fsum_def fadd_zero_left)

lemma fsum_Nil: "fsum [] = Fin 0"
  by (simp add: fsum_def)

lemma fsub_zero: "fsub c (Fin 0) = c"
  by (cases c) (simp_all add: fsub_def)

lemma fgt_irrefl: "\<not> fgt x x"
  by (cases x) simp_all

lemma fgt_trans: "fgt x y \<Longrightarrow> fgt y z \<Longrightarrow> fgt x z"
  by (cases x; cases y; cases z) simp_all

lemma fgt_fle: "fgt x y \<Longrightarrow> fle y x"
  by (cases x; cases y) simp_all

lemma fle_refl: "x \<noteq> NaN \<Longrightarrow> fle x x"
  by (cases x) simp_all

lemma fgt_not_NaN: "fgt x y \<Longrightarrow> x \<noteq> NaN"
  by (cases x; cases y) simp_all

lemma fle_not_fgt: "fle x y \<Longrightarrow> \<not> fgt x y"
  by (cases x; cases y) simp_all

lemma fadd_nonfinite_left: "\<not> finite_float x \<Longrightarrow> \<not> finite_float (fadd x y)"
  by (cases x; cases y) simp_all

lemma fadd_nonfinite_right: "\<not> finite_float y \<Longrightarrow> \<not> finite_float (fadd x y)"
  by (cases x; cases y) simp_all

lemma fneg_nonfinite: "\<not> finite_float x \<Longrightarrow> \<not> finite_float (fneg x)"
  by (cases x) simp_all

lemma fsub_nonfinite_left: "\<not> finite_float x \<Longrightarrow> \<not> finite_float (fsub x y)"
  by (simp add: fsub_def fadd_nonfinite_left)

lemma fsub_nonfinite_right: "\<not> finite_float y \<Longrightarrow> \<not> finite_float (fsub x y)"
  by (simp add: fsub_def fadd_nonfinite_right fneg_nonfinite)

lemma fmul_nonfinite_left: "\<not> finite_float x \<Longrightarrow> \<not> finite_float (fmul x y)"
  by (cases x; cases y) simp_all

lemma fmul_nonfinite_right: "\<not> finite_float y \<Longrightarrow> \<not> finite_float (fmul x y)"
  by (cases x; cases y) simp_all


section \<open>The state through one epoch\<close>

lemma emit_fields [simp]:
  "model (emit e st) = model st" "baseline (emit e st) = baseline st"
  "best_reward (emit e st) = best_reward st" "best_pi (emit e st) = best_pi st"
  "selection (emit e st) = selection st" "start_epoch (emit e st) = start_epoch st"
  "trace (emit e st) = trace st @ [e]"
  by (simp_all add: emit_def)

lemma update_best_fields [simp]:
  "model (update_best r p st) = model st" "baseline (update_best r p st) = baseline st"
  "selection (update_best r p st) = selection st"
  "start_epoch (update_best r p st) = start_epoch st"
  "trace (update_best r p st) = trace st"
  by (simp_all add: update_best_def)

lemma improved_refl: "improved st st"
  by (simp add: improved_def)

lemma improved_trans: "improved s1 s2 \<Longrightarrow> improved s2 s3 \<Longrightarrow> improved s1 s3"
  unfolding improved_def by (metis fgt_trans)

lemma improved_update_best: "improved st (update_best r p st)"
  by (simp add: improved_def update_best_def)

lemma improved_cong:
  "best_reward s' = best_reward s \<Longrightarrow> best_pi s' = best_pi s \<Longrightarrow> improved s' t = improved s t"
  by (simp add: improved_def)

lemma episodes_frame:
  "episodes w a probs epoch js (st, c, rs) = (res, st', c', rs') \<Longrightarrow>
     model st' = model st \<and> baseline st' = baseline st \<and> selection st' = selection st \<and>
     start_epoch st' = start_epoch st \<and> improved st st' \<and>
     (\<exists>es. trace st' = trace st @ es \<and> set es \<subseteq> {Sample, Reward (number_of_picks a)})"
proof (induction js arbitrary: st c rs)
  case Nil
  then show ?case by (simp add: improved_refl)
next
  case (Cons j js)
  let ?s = "emit (Reward (number_of_picks a)) (emit Sample st)"
  show ?case
  proof (cases "run_episode w a probs epoch j")
    case (Inl e)
    with Cons.prems have "st' = ?s" by simp
    then show ?thesis by (simp add: improved_def)
  next
    case (Inr out)
    obtain lp r p where out: "out = (lp, r, p)" by (cases out)
    let ?t = "update_best r p ?s"
    from Cons.prems Inr out
    have "episodes w a probs epoch js
            (?t, fsub c (fmul (fmean lp) (fsub r (baseline ?t))), rs @ [r]) = (res, st', c', rs')"
      by (simp add: Let_def)
    from Cons.IH [OF this]
    have ih: "model st' = model ?t" "baseline st' = baseline ?t" "selection st' = selection ?t"
      "start_epoch st' = start_epoch ?t" "improved ?t st'"
      "\<exists>es. trace st' = trace ?t @ es \<and> set es \<subseteq> {Sample, Reward (number_of_picks a)}"
      by simp_all
    have "improved ?s ?t" by (rule improved_update_best)
    then have "improved st ?t" by (simp add: improved_def update_best_def)
    from this ih(5) have imp: "improved st st'" by (rule improved_trans)
    from ih(6) obtain es where "trace st' = trace ?t @ es"
      "set es \<subseteq> {Sample, Reward (number_of_picks a)}" by blast
    then have "trace st' = trace st @ (Sample # Reward (number_of_picks a) # es) \<and>
      set (Sample # Reward (number_of_picks a) # es) \<subseteq> {Sample, Reward (number_of_picks a)}"
      by simp
    then have "\<exists>es. trace st' = trace st @ es \<and> set es \<subseteq> {Sample, Reward (number_of_picks a)}"
      by blast
    with ih imp show ?thesis by simp
  qed
qed

lemma episodes_ok:
  "map (run_episode w a probs epoch) js = map Inr outs \<Longrightarrow>
   \<exists>st'. episodes w a probs epoch js (st, c, rs) =
           (None, st',
            fsub c (fsum (map (\<lambda>(lp, r, p). fmul (fmean lp) (fsub r (baseline st))) outs)),
            rs @ map (\<lambda>(lp, r, p). r) outs) \<and>
         trace st' = trace st @ concat (map (\<lambda>j. [Sample, Reward (number_of_picks a)]) js)"
proof (induction js arbitrary: outs st c rs)
  case Nil
  then show ?case by (simp add: fsum_Nil fsub_zero)
next
  case (Cons j js)
  from Cons.prems obtain out outs' where outs: "outs = out # outs'"
    and hd: "run_episode w a probs epoch j = Inr out"
    and tl: "map (run_episode w a probs epoch) js = map Inr outs'"
    by (cases outs) auto
  obtain lp r p where out: "out = (lp, r, p)" by (cases out)
  let ?t = "update_best r p (emit (Reward (number_of_picks a)) (emit Sample st))"
  let ?tm = "fmul (fmean lp) (fsub r (baseline st))"
  from Cons.IH [OF tl, of ?t "fsub c ?tm" "rs @ [r]"]
  obtain st' where
    "episodes w a probs epoch js (?t, fsub c ?tm, rs @ [r]) =
       (None, st',
        fsub (fsub c ?tm)
          (fsum (map (\<lambda>(lp, r, p). fmul (fmean lp) (fsub r (baseline st))) outs')),
        (rs @ [r]) @ map (\<lambda>(lp, r, p). r) outs')"
    "trace st' = trace ?t @ concat (map (\<lambda>j. [Sample, Reward (number_of_picks a)]) js)"
    by auto
  then show ?case
    using hd out outs by (simp add: fsub_fsub fsum_Cons)
qed

lemmas demo_defs = demo_world_def demo_args_def demo_state_def demo_probs_def demo_outs_def

lemma write_selection_fields [simp]:
  "model (snd (write_selection w a st)) = model st"
  "baseline (snd (write_selection w a st)) = baseline st"
  "best_reward (snd (write_selection w a st)) = best_reward st"
  "best_pi (snd (write_selection w a st)) = best_pi st"
  "start_epoch (snd (write_selection w a st)) = start_epoch st"
  "trace (snd (write_selection w a st)) = trace st"
  by (simp_all add: write_selection_def split: prod.splits option.splits)

lemma optimizer_update_fields [simp]:
  "model (optimizer_update c st) = Stepped (model st) c"
  "baseline (optimizer_update c st) = baseline st"
  "best_reward (optimizer_update c st) = best_reward st"
  "best_pi (optimizer_update c st) = best_pi st"
  "selection (optimizer_update c st) = selection st"
  "start_epoch (optimizer_update c st) = start_epoch st"
  "trace (optimizer_update c st) = trace st @ [ZeroGrad, Backward c, OptStep]"
  by (simp_all add: optimizer_update_def)

lemma update_baseline_fields [simp]:
  "model (update_baseline rs st) = model st"
  "baseline (update_baseline rs st) =
     fadd (fmul (Fin 0.9) (baseline st)) (fmul (Fin 0.1) (fmean rs))"
  "best_reward (update_baseline rs st) = best_reward st"
  "best_pi (update_baseline rs st) = best_pi st"
  "selection (update_baseline rs st) = selection st"
  "start_epoch (update_baseline rs st) = start_epoch st"
  "trace (update_baseline rs st) = trace st"
  by (simp_all add: update_baseline_def)

lemma cost_terms:
  "map ((\<lambda>(lp, r). fmul lp (fsub r b)) \<circ> (\<lambda>(lp, r, p). (fmean lp, r))) outs =
   map (\<lambda>(lp, r, p). fmul (fmean lp) (fsub r b)) outs"
  by (simp add: case_prod_unfold)

text \<open>What an epoch does when the network, the sampler and the reward function return.\<close>

lemma train_epoch_ok:
  assumes "dsn w (model st) (features w a) = Inr probs"
    and "bernoulli w probs = None"
    and "map (run_episode w a probs epoch) (py_range 0 (num_episode a)) = map Inr outs"
  shows "\<exists>st1 st2. train_epoch w a epoch st = write_selection w a st2 \<and>
      episodes w a probs epoch (py_range 0 (num_episode a))
        (emit Forward st, fmul (beta a) (fsq (fsub (fmean probs) (Fin 0.5))), []) =
        (None, st1,
         epoch_cost_spec (beta a) (fmean probs) (baseline st)
           (map (\<lambda>(lp, r, p). (fmean lp, r)) outs),
         map (\<lambda>(lp, r, p). r) outs) \<and>
      st2 = emit (Print (epoch + 1) (max_epoch a) (fmean (map (\<lambda>(lp, r, p). r) outs)))
              (update_baseline (map (\<lambda>(lp, r, p). r) outs)
                 (optimizer_update
                    (epoch_cost_spec (beta a) (fmean probs) (baseline st)
                       (map (\<lambda>(lp, r, p). (fmean lp, r)) outs)) st1)) \<and>
      trace st1 = trace st @ Forward #
        concat (map (\<lambda>j. [Sample, Reward (number_of_picks a)]) (py_range 0 (num_episode a))) \<and>
      model st1 = model st \<and> baseline st1 = baseline st \<and> selection st1 = selection st \<and>
      start_epoch st1 = start_epoch st \<and> improved st st1"
proof -
  from episodes_ok [OF assms(3), of "emit Forward st"
      "fmul (beta a) (fsq (fsub (fmean probs) (Fin 0.5)))" "[]"]
  obtain st1 where
    ep: "episodes w a probs epoch (py_range 0 (num_episode a))
          (emit Forward st, fmul (beta a) (fsq (fsub (fmean probs) (Fin 0.5))), []) =
          (None, st1,
           epoch_cost_spec (beta a) (fmean probs) (baseline st)
             (map (\<lambda>(lp, r, p). (fmean lp, r)) outs),
           map (\<lambda>(lp, r, p). r) outs)"
    and tr: "trace st1 = trace st @ Forward #
        concat (map (\<lambda>j. [Sample, Reward (number_of_picks a)]) (py_range 0 (num_episode a)))"
    by (auto simp: epoch_cost_spec_def cost_terms)
  from episodes_frame [OF ep]
  have fr: "model st1 = model st" "baseline st1 = baseline st" "selection st1 = selection st"
    "start_epoch st1 = start_epoch st" "improved st st1"
    by (simp_all add: improved_def)
  show ?thesis
    using assms(1,2) ep tr fr by (simp add: train_epoch_def)
qed

lemma backward_costs_append [simp]:
  "backward_costs (xs @ ys) = backward_costs xs @ backward_costs ys"
  by (simp add: backward_costs_def)

lemma backward_costs_episodes [simp]:
  "backward_costs (concat (map (\<lambda>j. [Sample, Reward k]) js)) = []"
  by (induction js) (simp_all add: backward_costs_def)

lemma backward_costs_simps [simp]:
  "backward_costs [] = []"
  "backward_costs (Backward c # es) = c # backward_costs es"
  "backward_costs (Forward # es) = backward_costs es"
  "backward_costs (Sample # es) = backward_costs es"
  "backward_costs (Reward k # es) = backward_costs es"
  "backward_costs (ZeroGrad # es) = backward_costs es"
  "backward_costs (OptStep # es) = backward_costs es"
  "backward_costs (Print i n m # es) = backward_costs es"
  "backward_costs (Save p # es) = backward_costs es"
  by (simp_all add: backward_costs_def)

lemma demo_run_episode:
  "map (run_episode demo_world demo_args demo_probs 0) (py_range 0 (num_episode demo_args)) =
     map Inr demo_outs"
  by (simp add: demo_defs run_episode_def py_range_def upto.simps features_def py_slice_def
      slice_bound_def)

lemma episodes_None:
  "episodes w a probs epoch js (st, c, rs) = (None, st', c', rs') \<Longrightarrow>
   \<exists>outs. map (run_episode w a probs epoch) js = map Inr outs"
proof (induction js arbitrary: st c rs)
  case Nil
  then show ?case by simp
next
  case (Cons j js)
  show ?case
  proof (cases "run_episode w a probs epoch j")
    case (Inl e)
    with Cons.prems show ?thesis by simp
  next
    case (Inr out)
    obtain lp r p where out: "out = (lp, r, p)" by (cases out)
    from Cons.prems Inr out obtain t c1 rs1 where
      "episodes w a probs epoch js (t, c1, rs1) = (None, st', c', rs')"
      by (simp add: Let_def)
    from Cons.IH [OF this] obtain outs where
      "map (run_episode w a probs epoch) js = map Inr outs" ..
    with Inr have "map (run_episode w a probs epoch) (j # js) = map Inr (out # outs)" by simp
    then show ?thesis ..
  qed
qed

text \<open>
  An epoch either stops at an exception of a collaborator, before the optimizer is
  touched, or the network, the sampler and the reward function all return.
\<close>

lemma train_epoch_cases:
  assumes "train_epoch w a epoch st = (res, st')"
  shows "(\<exists>e es. res = Some e \<and> model st' = model st \<and> baseline st' = baseline st \<and>
            selection st' = selection st \<and> trace st' = trace st @ Forward # es \<and>
            set es \<subseteq> {Sample, Reward (number_of_picks a)})
         \<or> (\<exists>probs outs. dsn w (model st) (features w a) = Inr probs \<and>
               bernoulli w probs = None \<and>
               map (run_episode w a probs epoch) (py_range 0 (num_episode a)) = map Inr outs)"
proof (cases "dsn w (model st) (features w a)")
  case (Inl e)
  with assms show ?thesis by (auto simp: train_epoch_def)
next
  case (Inr probs)
  show ?thesis
  proof (cases "bernoulli w probs")
    case (Some e)
    with Inr assms show ?thesis by (auto simp: train_epoch_def)
  next
    case None
    obtain r1 st1 c1 rs1 where
      ep: "episodes w a probs epoch (py_range 0 (num_episode a))
             (emit Forward st, fmul (beta a) (fsq (fsub (fmean probs) (Fin 0.5))), []) =
           (r1, st1, c1, rs1)"
      by (metis prod_cases4)
    show ?thesis
    proof (cases r1)
      case None
      with ep episodes_None obtain outs where
        "map (run_episode w a probs epoch) (py_range 0 (num_episode a)) = map Inr outs"
        by blast
      with Inr \<open>bernoulli w probs = None\<close> show ?thesis by blast
    next
      case (Some e)
      with Inr \<open>bernoulli w probs = None\<close> ep assms
      have "res = Some e" "st' = st1" by (simp_all add: train_epoch_def)
      moreover from episodes_frame [OF ep]
      have "model st1 = model st" "baseline st1 = baseline st" "selection st1 = selection st"
        "\<exists>es. trace st1 = trace st @ Forward # es \<and> set es \<subseteq> {Sample, Reward (number_of_picks a)}"
        by simp_all
      ultimately show ?thesis by blast
    qed
  qed
qed

lemma train_epoch_frame:
  assumes "train_epoch w a epoch st = (res, st')"
  shows "improved st st' \<and> start_epoch st' = start_epoch st"
proof (cases "dsn w (model st) (features w a)")
  case (Inl e)
  with assms show ?thesis by (auto simp: train_epoch_def improved_def)
next
  case (Inr probs)
  show ?thesis
  proof (cases "bernoulli w probs")
    case (Some e)
    with Inr assms show ?thesis by (auto simp: train_epoch_def improved_def)
  next
    case None
    obtain r1 st1 c1 rs1 where
      ep: "episodes w a probs epoch (py_range 0 (num_episode a))
             (emit Forward st, fmul (beta a) (fsq (fsub (fmean probs) (Fin 0.5))), []) =
           (r1, st1, c1, rs1)"
      by (metis prod_cases4)
    from episodes_frame [OF ep]
    have fr: "improved (emit Forward st) st1" "start_epoch st1 = start_epoch st" by simp_all
    then have imp: "improved st st1" by (simp add: improved_def)
    show ?thesis
    proof (cases r1)
      case None
      with Inr \<open>bernoulli w probs = None\<close> ep assms
      have "st' = snd (write_selection w a
                (emit (Print (epoch + 1) (max_epoch a) (fmean rs1))
                   (update_baseline rs1 (optimizer_update c1 st1))))"
        by (simp add: train_epoch_def)
      with imp fr(2) show ?thesis by (simp add: improved_def)
    next
      case (Some e)
      with Inr \<open>bernoulli w probs = None\<close> ep assms have "st' = st1"
        by (simp add: train_epoch_def)
      with imp fr(2) show ?thesis by simp
    qed
  qed
qed

section \<open>The state through a run\<close>

lemma printed_rewards_append [simp]:
  "printed_rewards (xs @ ys) = printed_rewards xs @ printed_rewards ys"
  by (simp add: printed_rewards_def)

lemma printed_rewards_simps [simp]:
  "printed_rewards [] = []"
  "printed_rewards (Print i n m # es) = m # printed_rewards es"
  "printed_rewards (Forward # es) = printed_rewards es"
  "printed_rewards (Sample # es) = printed_rewards es"
  "printed_rewards (Reward k # es) = printed_rewards es"
  "printed_rewards (ZeroGrad # es) = printed_rewards es"
  "printed_rewards (Backward c # es) = printed_rewards es"
  "printed_rewards (OptStep # es) = printed_rewards es"
  "printed_rewards (Save p # es) = printed_rewards es"
  by (simp_all add: printed_rewards_def)

lemma printed_rewards_episodes:
  "set es \<subseteq> {Sample, Reward k} \<Longrightarrow> printed_rewards es = []"
  by (induction es) auto

lemma printed_rewards_episodes_concat [simp]:
  "printed_rewards (concat (map (\<lambda>j. [Sample, Reward k]) js)) = []"
  by (induction js) simp_all

lemma train_epoch_baseline:
  assumes "train_epoch w a epoch st = (res, st')"
  shows "\<exists>es. trace st' = trace st @ es \<and>
           baseline st' = foldl ema_step (baseline st) (printed_rewards es) \<and>
           (res = None \<longrightarrow> length (printed_rewards es) = 1)"
  using train_epoch_cases [OF assms]
proof (elim disjE exE conjE)
  fix e es
  assume "res = Some e" "baseline st' = baseline st" "trace st' = trace st @ Forward # es"
    "set es \<subseteq> {Sample, Reward (number_of_picks a)}"
  then have "trace st' = trace st @ (Forward # es) \<and>
      baseline st' = foldl ema_step (baseline st) (printed_rewards (Forward # es)) \<and>
      (res = None \<longrightarrow> length (printed_rewards (Forward # es)) = 1)"
    by (simp add: printed_rewards_episodes)
  then show ?thesis by blast
next
  fix probs outs
  assume h: "dsn w (model st) (features w a) = Inr probs" "bernoulli w probs = None"
    "map (run_episode w a probs epoch) (py_range 0 (num_episode a)) = map Inr outs"
  let ?rs = "map (\<lambda>(lp, r, p). r) outs"
  from train_epoch_ok [OF h] obtain st1 st2 where
    te: "train_epoch w a epoch st = write_selection w a st2"
    and st2: "st2 = emit (Print (epoch + 1) (max_epoch a) (fmean ?rs))
              (update_baseline ?rs
                 (optimizer_update
                    (epoch_cost_spec (beta a) (fmean probs) (baseline st)
                       (map (\<lambda>(lp, r, p). (fmean lp, r)) outs)) st1))"
    and tr: "trace st1 = trace st @ Forward #
        concat (map (\<lambda>j. [Sample, Reward (number_of_picks a)]) (py_range 0 (num_episode a)))"
    and b: "baseline st1 = baseline st"
    by blast
  from te assms have "st' = snd (write_selection w a st2)" by (metis snd_conv)
  with st2 tr b show ?thesis
    by (simp add: ema_step_def)
qed

lemma epochs_baseline:
  "epochs w a es st = (res, st') \<Longrightarrow>
   \<exists>evs. trace st' = trace st @ evs \<and>
          baseline st' = foldl ema_step (baseline st) (printed_rewards evs) \<and>
          (res = None \<longrightarrow> length (printed_rewards evs) = length es)"
proof (induction es arbitrary: st)
  case Nil
  then show ?case by simp
next
  case (Cons epoch es)
  obtain r1 st1 where te: "train_epoch w a epoch st = (r1, st1)" by (cases "train_epoch w a epoch st")
  from train_epoch_baseline [OF te] obtain e1 where
    e1: "trace st1 = trace st @ e1" "baseline st1 = foldl ema_step (baseline st) (printed_rewards e1)"
      "r1 = None \<longrightarrow> length (printed_rewards e1) = 1"
    by blast
  show ?case
  proof (cases r1)
    case (Some e)
    with te Cons.prems have "res = Some e" "st' = st1" by simp_all
    with e1 show ?thesis by auto
  next
    case None
    with te Cons.prems have "epochs w a es st1 = (res, st')" by simp
    from Cons.IH [OF this] obtain e2 where
      "trace st' = trace st1 @ e2" "baseline st' = foldl ema_step (baseline st1) (printed_rewards e2)"
      "res = None \<longrightarrow> length (printed_rewards e2) = length es"
      by blast
    with e1 None have "trace st' = trace st @ (e1 @ e2) \<and>
          baseline st' = foldl ema_step (baseline st) (printed_rewards (e1 @ e2)) \<and>
          (res = None \<longrightarrow> length (printed_rewards (e1 @ e2)) = length (epoch # es))"
      by simp
    then show ?thesis by blast
  qed
qed

lemma main_init_fields:
  "main_init w a = Inr st \<Longrightarrow>
   baseline st = Fin 0 \<and> best_reward st = Fin 0 \<and> best_pi st = [] \<and> trace st = [] \<and>
   selection st = Map.empty \<and>
   (if resume a = [] then model st = Initial \<and> start_epoch st = Some 0
    else torch_load w (resume a) = Inr (model st) \<and> start_epoch st = None)"
  by (auto simp: main_init_def split: if_splits sum.splits)

lemma ema_closed:
  "ema (map Fin rs) = Fin (\<Sum>i<length rs. 0.1 * 0.9 ^ (length rs - 1 - i) * rs ! i)"
proof (induction rs rule: rev_induct)
  case Nil
  then show ?case by (simp add: ema_def)
next
  case (snoc r rs)
  let ?n = "length rs"
  have "(\<Sum>i<?n. 0.1 * 0.9 ^ (?n - i) * (rs @ [r]) ! i) =
        (\<Sum>i<?n. 0.9 * (0.1 * 0.9 ^ (?n - 1 - i) * rs ! i))"
  proof (rule sum.cong)
    fix i assume "i \<in> {..<?n}"
    then have i: "i < ?n" by simp
    then have "?n - i = Suc (?n - 1 - i)" by simp
    with i show "0.1 * 0.9 ^ (?n - i) * (rs @ [r]) ! i = 0.9 * (0.1 * 0.9 ^ (?n - 1 - i) * rs ! i)"
      by (simp add: nth_append)
  qed simp
  then have "(\<Sum>i<length (rs @ [r]). 0.1 * 0.9 ^ (length (rs @ [r]) - 1 - i) * (rs @ [r]) ! i) =
        0.9 * (\<Sum>i<?n. 0.1 * 0.9 ^ (?n - 1 - i) * rs ! i) + 0.1 * r"
    by (simp add: sum_distrib_left)
  with snoc show ?case
    by (simp add: ema_def ema_step_def)
qed

lemma py_range_length: "length (py_range lo hi) = nat (hi - lo)"
  by (simp add: py_range_def)


lemmas run_defs = main_def main_init_def py_range_def upto.simps train_epoch_def
  features_def py_slice_def slice_bound_def run_episode_def update_best_def
  optimizer_update_def update_baseline_def write_selection_def selection_path_def
  str_int_def str_nat.simps py_index_def fpaths_def emit_def fmean_def fsum_def fsub_def fsq_def

lemma demo_main: "main demo_world demo_args = Finished demo_final"
  by (simp add: run_defs demo_defs demo_final_def)

lemma epochs_improved:
  "epochs w a es st = (res, st') \<Longrightarrow> improved st st'"
proof (induction es arbitrary: st)
  case Nil
  then show ?case by (simp add: improved_refl)
next
  case (Cons epoch es)
  obtain r1 st1 where te: "train_epoch w a epoch st = (r1, st1)"
    by (cases "train_epoch w a epoch st")
  from train_epoch_frame [OF te] have i1: "improved st st1" ..
  show ?case
  proof (cases r1)
    case (Some e)
    with te Cons.prems have "st' = st1" by simp
    with i1 show ?thesis by simp
  next
    case None
    with te Cons.prems have "epochs w a es st1 = (res, st')" by simp
    from i1 Cons.IH [OF this] show ?thesis by (rule improved_trans)
  qed
qed

lemma improved_fle: "improved st st' \<Longrightarrow> best_reward st \<noteq> NaN \<Longrightarrow> fle (best_reward st) (best_reward st')"
  unfolding improved_def by (metis fgt_fle fle_refl)

lemma write_lines_None:
  "write_lines wr fps start idxs c = (None, content) \<Longrightarrow>
   \<exists>ids. map (\<lambda>idx. py_index fps (start + idx)) idxs = map Inr ids \<and>
         content = c @ concat (map (\<lambda>p. p @ [CHR 0x0A]) ids)"
proof (induction idxs arbitrary: c)
  case Nil
  then show ?case by simp
next
  case (Cons idx idxs)
  from Cons.prems obtain p where p: "py_index fps (start + idx) = Inr p"
    and rest: "write_lines wr fps start idxs (c @ p @ [CHR 0x0A]) = (None, content)"
    by (auto split: sum.splits option.splits)
  from Cons.IH [OF rest] obtain ids where
    "map (\<lambda>idx. py_index fps (start + idx)) idxs = map Inr ids"
    "content = (c @ p @ [CHR 0x0A]) @ concat (map (\<lambda>p. p @ [CHR 0x0A]) ids)"
    by blast
  with p have "map (\<lambda>idx. py_index fps (start + idx)) (idx # idxs) = map Inr (p # ids) \<and>
         content = c @ concat (map (\<lambda>p. p @ [CHR 0x0A]) (p # ids))"
    by simp
  then show ?case by blast
qed

lemma write_selection_None:
  assumes "write_selection w a st = (None, st')"
  shows "\<exists>ids. map (\<lambda>idx. py_index (fpaths w) (start_idx a + idx)) (best_pi st) = map Inr ids \<and>
           st' = st\<lparr>selection := (selection st)
                   (selection_path a \<mapsto> concat (map (\<lambda>p. p @ [CHR 0x0A]) ids))\<rparr>"
proof -
  obtain r content where
    wl: "write_lines (file_write w (selection_path a)) (fpaths w) (start_idx a) (best_pi st) [] =
           (r, content)"
    by (cases "write_lines (file_write w (selection_path a)) (fpaths w) (start_idx a)
                 (best_pi st) []")
  with assms have "r = None" "st' = st\<lparr>selection := (selection st)(selection_path a \<mapsto> content)\<rparr>"
    by (auto simp: write_selection_def split: option.splits)
  with write_lines_None [of "file_write w (selection_path a)" "fpaths w" "start_idx a"
      "best_pi st" "[]" content] wl
  show ?thesis by auto
qed

lemma write_selection_empty:
  "best_pi st = [] \<Longrightarrow> file_open w (selection_path a) = None \<Longrightarrow>
   file_close w (selection_path a) = None \<Longrightarrow>
   write_selection w a st = (None, st\<lparr>selection := (selection st)(selection_path a \<mapsto> [])\<rparr>)"
  by (simp add: write_selection_def)

text \<open>What a completed epoch leaves in the selection file.\<close>

lemma train_epoch_selection:
  assumes "train_epoch w a epoch st = (None, st')"
  shows "\<exists>ids. map (\<lambda>idx. py_index (fpaths w) (start_idx a + idx)) (best_pi st') = map Inr ids \<and>
           selection st' =
             (selection st)(selection_path a \<mapsto> concat (map (\<lambda>p. p @ [CHR 0x0A]) ids))"
proof -
  from train_epoch_cases [OF assms] obtain probs outs where
    h: "dsn w (model st) (features w a) = Inr probs" "bernoulli w probs = None"
      "map (run_episode w a probs epoch) (py_range 0 (num_episode a)) = map Inr outs"
    by auto
  from train_epoch_ok [OF h] obtain st1 st2 where
    te: "train_epoch w a epoch st = write_selection w a st2"
    and st2: "st2 = emit (Print (epoch + 1) (max_epoch a) (fmean (map (\<lambda>(lp, r, p). r) outs)))
              (update_baseline (map (\<lambda>(lp, r, p). r) outs)
                 (optimizer_update
                    (epoch_cost_spec (beta a) (fmean probs) (baseline st)
                       (map (\<lambda>(lp, r, p). (fmean lp, r)) outs)) st1))"
    and sel: "selection st1 = selection st"
    by blast
  from te assms have "write_selection w a st2 = (None, st')" by simp
  from write_selection_None [OF this] obtain ids where
    "map (\<lambda>idx. py_index (fpaths w) (start_idx a + idx)) (best_pi st2) = map Inr ids"
    "st' = st2\<lparr>selection := (selection st2)
                   (selection_path a \<mapsto> concat (map (\<lambda>p. p @ [CHR 0x0A]) ids))\<rparr>"
    by blast
  with st2 sel show ?thesis by auto
qed

text \<open>Rewards that are not greater than the best reward leave the best pair alone.\<close>

lemma episodes_quiet:
  "episodes w a probs epoch js (st, c, rs) = (res, st', c', rs') \<Longrightarrow>
   \<forall>r \<in> set (rewards_of (map (run_episode w a probs epoch) js)). \<not> fgt r (best_reward st) \<Longrightarrow>
   best_reward st' = best_reward st \<and> best_pi st' = best_pi st"
proof (induction js arbitrary: st c rs)
  case Nil
  then show ?case by simp
next
  case (Cons j js)
  let ?s = "emit (Reward (number_of_picks a)) (emit Sample st)"
  show ?case
  proof (cases "run_episode w a probs epoch j")
    case (Inl e)
    with Cons.prems(1) have "st' = ?s" by simp
    then show ?thesis by simp
  next
    case (Inr out)
    obtain lp r p where out: "out = (lp, r, p)" by (cases out)
    from Cons.prems(2) Inr out have nr: "\<not> fgt r (best_reward st)"
      and rest: "\<forall>r \<in> set (rewards_of (map (run_episode w a probs epoch) js)).
                  \<not> fgt r (best_reward ?s)"
      by simp_all
    from nr have t: "update_best r p ?s = ?s" by (simp add: update_best_def)
    from Cons.prems(1) Inr out t
    have ep: "episodes w a probs epoch js
          (?s, fsub c (fmul (fmean lp) (fsub r (baseline ?s))), rs @ [r]) = (res, st', c', rs')"
      by (simp add: Let_def)
    from Cons.IH [OF ep rest] show ?thesis by simp
  qed
qed

lemma train_epoch_quiet:
  assumes "train_epoch w a epoch st = (res, st')"
    and "\<forall>r \<in> set (epoch_rewards w a epoch st). \<not> fgt r (best_reward st)"
  shows "best_reward st' = best_reward st \<and> best_pi st' = best_pi st"
proof (cases "dsn w (model st) (features w a)")
  case (Inl e)
  with assms(1) show ?thesis by (auto simp: train_epoch_def)
next
  case (Inr probs)
  show ?thesis
  proof (cases "bernoulli w probs")
    case (Some e)
    with Inr assms(1) show ?thesis by (auto simp: train_epoch_def)
  next
    case None
    obtain r1 st1 c1 rs1 where
      ep: "episodes w a probs epoch (py_range 0 (num_episode a))
             (emit Forward st, fmul (beta a) (fsq (fsub (fmean probs) (Fin 0.5))), []) =
           (r1, st1, c1, rs1)"
      by (metis prod_cases4)
    from assms(2) Inr None
    have "\<forall>r \<in> set (rewards_of (map (run_episode w a probs epoch) (py_range 0 (num_episode a)))).
            \<not> fgt r (best_reward (emit Forward st))"
      by (simp add: epoch_rewards_def)
    from episodes_quiet [OF ep this]
    have b: "best_reward st1 = best_reward st" "best_pi st1 = best_pi st" by simp_all
    show ?thesis
    proof (cases r1)
      case None
      with Inr \<open>bernoulli w probs = None\<close> ep assms(1)
      have "st' = snd (write_selection w a
                (emit (Print (epoch + 1) (max_epoch a) (fmean rs1))
                   (update_baseline rs1 (optimizer_update c1 st1))))"
        by (simp add: train_epoch_def)
      with b show ?thesis by simp
    next
      case (Some e)
      with Inr \<open>bernoulli w probs = None\<close> ep assms(1) have "st' = st1"
        by (simp add: train_epoch_def)
      with b show ?thesis by simp
    qed
  qed
qed

lemma epochs_quiet:
  "epochs w a es st = (res, st') \<Longrightarrow>
   \<forall>r \<in> set (run_rewards w a es st). fle r (Fin 0) \<Longrightarrow>
   best_reward st = Fin 0 \<Longrightarrow> best_pi st = [] \<Longrightarrow>
   best_reward st' = Fin 0 \<and> best_pi st' = [] \<and>
   (res = None \<and> es \<noteq> [] \<longrightarrow> selection st' (selection_path a) = Some [])"
proof (induction es arbitrary: st)
  case Nil
  then show ?case by simp
next
  case (Cons epoch es)
  obtain r1 st1 where te: "train_epoch w a epoch st = (r1, st1)"
    by (cases "train_epoch w a epoch st")
  from Cons.prems(2,3) have "\<forall>r \<in> set (epoch_rewards w a epoch st). \<not> fgt r (best_reward st)"
    by (auto dest: fle_not_fgt)
  from train_epoch_quiet [OF te this] Cons.prems(3,4)
  have b1: "best_reward st1 = Fin 0" "best_pi st1 = []" by simp_all
  show ?case
  proof (cases r1)
    case (Some e)
    with te Cons.prems(1) have "res = Some e" "st' = st1" by simp_all
    with b1 show ?thesis by simp
  next
    case None
    from train_epoch_selection [of w a epoch st st1] te None b1(2)
    have s1: "selection st1 (selection_path a) = Some []" by auto
    from te None Cons.prems(1) have ep: "epochs w a es st1 = (res, st')" by simp
    from te None Cons.prems(2) have "\<forall>r \<in> set (run_rewards w a es st1). fle r (Fin 0)" by simp
    from Cons.IH [OF ep this b1]
    have ih: "best_reward st' = Fin 0" "best_pi st' = []"
      "res = None \<and> es \<noteq> [] \<longrightarrow> selection st' (selection_path a) = Some []"
      by simp_all
    show ?thesis
    proof (cases "es = []")
      case True
      with ep have "st' = st1" by simp
      with ih s1 show ?thesis by simp
    next
      case False
      with ih show ?thesis by simp
    qed
  qed
qed

text \<open>
  An epoch without a positive reward, entered with the initial best pair: when its
  collaborators return it completes, and the file it writes is empty.
\<close>

lemma train_epoch_quiet_total:
  assumes "dsn w (model st) (features w a) = Inr probs"
    and "bernoulli w probs = None"
    and "map (run_episode w a probs epoch) (py_range 0 (num_episode a)) = map Inr outs"
    and "\<forall>(lp, r, p) \<in> set outs. fle r (Fin 0)"
    and "file_open w (selection_path a) = None" and "file_close w (selection_path a) = None"
    and "best_reward st = Fin 0" and "best_pi st = []"
  shows "\<exists>st'. train_epoch w a epoch st = (None, st') \<and> best_reward st' = Fin 0 \<and>
           best_pi st' = [] \<and> selection st' = (selection st)(selection_path a \<mapsto> [])"
proof -
  from train_epoch_ok [OF assms(1,2,3)] obtain st1 st2 where
    te: "train_epoch w a epoch st = write_selection w a st2"
    and ep: "episodes w a probs epoch (py_range 0 (num_episode a))
        (emit Forward st, fmul (beta a) (fsq (fsub (fmean probs) (Fin 0.5))), []) =
        (None, st1,
         epoch_cost_spec (beta a) (fmean probs) (baseline st)
           (map (\<lambda>(lp, r, p). (fmean lp, r)) outs),
         map (\<lambda>(lp, r, p). r) outs)"
    and st2: "st2 = emit (Print (epoch + 1) (max_epoch a) (fmean (map (\<lambda>(lp, r, p). r) outs)))
              (update_baseline (map (\<lambda>(lp, r, p). r) outs)
                 (optimizer_update
                    (epoch_cost_spec (beta a) (fmean probs) (baseline st)
                       (map (\<lambda>(lp, r, p). (fmean lp, r)) outs)) st1))"
    and sel: "selection st1 = selection st"
    by blast
  have "rewards_of (map Inr outs) = map (\<lambda>(lp, r, p). r) outs" for outs :: "(pyfloat list \<times> pyfloat \<times> int list) list"
    by (induction outs) auto
  with assms(3,4,7)
  have "\<forall>r \<in> set (rewards_of (map (run_episode w a probs epoch) (py_range 0 (num_episode a)))).
          \<not> fgt r (best_reward (emit Forward st))"
    by (auto dest: fle_not_fgt)
  from episodes_quiet [OF ep this] assms(7,8)
  have "best_reward st1 = Fin 0" "best_pi st1 = []" by simp_all
  with st2 have b2: "best_reward st2 = Fin 0" "best_pi st2 = []" by simp_all
  let ?st3 = "st2\<lparr>selection := (selection st2)(selection_path a \<mapsto> [])\<rparr>"
  from te write_selection_empty [OF b2(2) assms(5,6)]
  have "train_epoch w a epoch st = (None, ?st3)" by simp
  moreover have "best_reward ?st3 = Fin 0" "best_pi ?st3 = []" using b2 by simp_all
  moreover have "selection ?st3 = (selection st)(selection_path a \<mapsto> [])"
    using st2 sel by simp
  ultimately have "train_epoch w a epoch st = (None, ?st3) \<and> best_reward ?st3 = Fin 0 \<and>
           best_pi ?st3 = [] \<and> selection ?st3 = (selection st)(selection_path a \<mapsto> [])"
    by simp
  then show ?thesis by (rule exI)
qed

lemma fsum_nonfinite: "x \<in> set xs \<Longrightarrow> \<not> finite_float x \<Longrightarrow> \<not> finite_float (fsum xs)"
  by (induction xs) (auto simp: fsum_Cons fadd_nonfinite_left fadd_nonfinite_right)

lemma expected_reward_nonfinite:
  "\<not> finite_float r \<or> \<not> finite_float lp \<Longrightarrow> \<not> finite_float (fmul lp (fsub r b))"
  by (auto simp: fmul_nonfinite_left fmul_nonfinite_right fsub_nonfinite_left)





section \<open>The claims\<close>

text \<open>
  Claim C1. In an epoch whose forward pass, sampler and reward function return, the cost
  handed to \<^verbatim>\<open>cost.backward()\<close> is the regularisation term
  \<open>beta * (mean(probs) - 0.5)\<^sup>2\<close> minus the sum, over the episodes of the epoch, of
  \<open>mean(log_probs) * (reward - baseline)\<close>, with the baseline the epoch started with;
  it is the only cost the epoch hands to \<^verbatim>\<open>backward\<close>.
\<close>

theorem epoch_cost:
  assumes "dsn w (model st) (features w a) = Inr probs"
    and "bernoulli w probs = None"
    and "map (run_episode w a probs epoch) (py_range 0 (num_episode a)) = map Inr outs"
  shows "backward_costs (new_events st (snd (train_epoch w a epoch st))) =
           [fsub (fmul (beta a) (fsq (fsub (fmean probs) (Fin 0.5))))
              (fsum (map (\<lambda>(log_probs, reward, pick_idxs).
                           fmul (fmean log_probs) (fsub reward (baseline st))) outs))]"
proof -
  from train_epoch_ok [OF assms] obtain st1 st2 where
    "train_epoch w a epoch st = write_selection w a st2"
    "st2 = emit (Print (epoch + 1) (max_epoch a) (fmean (map (\<lambda>(lp, r, p). r) outs)))
              (update_baseline (map (\<lambda>(lp, r, p). r) outs)
                 (optimizer_update
                    (epoch_cost_spec (beta a) (fmean probs) (baseline st)
                       (map (\<lambda>(lp, r, p). (fmean lp, r)) outs)) st1))"
    "trace st1 = trace st @ Forward #
        concat (map (\<lambda>j. [Sample, Reward (number_of_picks a)]) (py_range 0 (num_episode a)))"
    by blast
  then show ?thesis
    by (simp add: new_events_def epoch_cost_spec_def cost_terms)
qed

text \<open>The epoch of the small world: two episodes, of cost \<open>1201 / 1600\<close>.\<close>

theorem epoch_cost_witness:
  "dsn demo_world (model demo_state) (features demo_world demo_args) = Inr demo_probs \<and>
   bernoulli demo_world demo_probs = None \<and>
   map (run_episode demo_world demo_args demo_probs 0) (py_range 0 (num_episode demo_args)) =
     map Inr demo_outs \<and>
   backward_costs (new_events demo_state (snd (train_epoch demo_world demo_args 0 demo_state))) =
     [Fin (1201 / 1600)]"
proof -
  have h1: "dsn demo_world (model demo_state) (features demo_world demo_args) = Inr demo_probs"
    by (simp add: demo_defs features_def py_slice_def slice_bound_def)
  have h2: "bernoulli demo_world demo_probs = None"
    by (simp add: demo_defs)
  note h3 = demo_run_episode
  have "fsub (fmul (beta demo_args) (fsq (fsub (fmean demo_probs) (Fin 0.5))))
          (fsum (map (\<lambda>(log_probs, reward, pick_idxs).
                   fmul (fmean log_probs) (fsub reward (baseline demo_state))) demo_outs)) =
        Fin (1201 / 1600)"
    by (simp add: demo_defs fmean_def fsum_def fsub_def fsq_def)
  with epoch_cost [OF h1 h2 h3] h1 h2 h3 show ?thesis by simp
qed

text \<open>
  Claim C2. The baseline starts at zero and, at the end of a run (normal or aborted in
  the training loop), is the moving average with decay 0.9 of the mean rewards printed
  epoch by epoch; for finite mean rewards \<open>r\<^sub>1, \<dots>, r\<^sub>n\<close> that is the closed form
  \<open>\<Sum>i. 0.1 * 0.9\<^bsup>n-i\<^esup> * r\<^sub>i\<close>. A run that finishes has updated it once per epoch.
\<close>

theorem baseline_is_moving_average:
  assumes "main w a = Finished st \<or> main w a = Aborted e st"
  shows "baseline st = ema (printed_rewards (trace st)) \<and>
         (\<forall>rs. printed_rewards (trace st) = map Fin rs \<longrightarrow>
            baseline st = Fin (\<Sum>i<length rs. 0.1 * 0.9 ^ (length rs - 1 - i) * rs ! i)) \<and>
         (main w a = Finished st \<longrightarrow>
            length (printed_rewards (trace st)) = nat (max_epoch a))"
proof -
  from assms obtain st0 where init: "main_init w a = Inr st0"
    by (auto simp: main_def split: sum.splits)
  note f = main_init_fields [OF init]
  have *: "baseline st = ema (printed_rewards (trace st)) \<and>
         (main w a = Finished st \<longrightarrow>
            length (printed_rewards (trace st)) = nat (max_epoch a))"
  proof (cases "start_epoch st0")
    case None
    with assms init have "st = st0" by (auto simp: main_def)
    with f show ?thesis using None init by (simp add: ema_def main_def)
  next
    case (Some s)
    with f have s: "s = 0" by (simp split: if_splits)
    obtain r1 st1 where ep: "epochs w a (py_range 0 (max_epoch a)) st0 = (r1, st1)"
      by (cases "epochs w a (py_range 0 (max_epoch a)) st0")
    from epochs_baseline [OF ep] f obtain evs where
      evs: "trace st1 = evs" "baseline st1 = ema (printed_rewards evs)"
        "r1 = None \<longrightarrow> length (printed_rewards evs) = nat (max_epoch a)"
      by (auto simp: ema_def py_range_length)
    show ?thesis
    proof (cases r1)
      case None
      with assms init Some s ep have "st = emit (Save (model st1)) st1" "main w a = Finished st"
        by (auto simp: main_def)
      with evs None show ?thesis by simp
    next
      case (Some err)
      with assms init \<open>start_epoch st0 = Some s\<close> s ep have "st = st1" "main w a \<noteq> Finished st"
        by (auto simp: main_def)
      with evs show ?thesis by simp
    qed
  qed
  then show ?thesis using ema_closed by metis
qed


text \<open>The run of the small world: two epochs of mean reward \<open>5 / 8\<close>.\<close>

theorem baseline_is_moving_average_witness:
  "main demo_world demo_args = Finished demo_final \<and>
   printed_rewards (trace demo_final) = map Fin [5 / 8, 5 / 8] \<and>
   baseline demo_final = ema [Fin (5 / 8), Fin (5 / 8)] \<and>
   baseline demo_final = Fin (0.1 * 0.9 * (5 / 8) + 0.1 * (5 / 8)) \<and>
   length (printed_rewards (trace demo_final)) = nat (max_epoch demo_args)"
proof -
  have h: "main demo_world demo_args = Finished demo_final \<or>
           main demo_world demo_args = Aborted IndexError demo_final"
    using demo_main by simp
  have p: "printed_rewards (trace demo_final) = map Fin [5 / 8, 5 / 8]"
    by (simp add: demo_final_def)
  note t = baseline_is_moving_average [OF h]
  note c = t [THEN conjunct1] t [THEN conjunct2, THEN conjunct1]
    t [THEN conjunct2, THEN conjunct2]
  from c(2) p have "baseline demo_final =
      Fin (\<Sum>i<length [5 / 8, 5 / 8 :: real]. 0.1 * 0.9 ^ (length [5 / 8, 5 / 8 :: real] - 1 - i) * [5 / 8, 5 / 8] ! i)"
    by blast
  then have "baseline demo_final = Fin (0.1 * 0.9 * (5 / 8) + 0.1 * (5 / 8))"
    by (simp add: numeral_2_eq_2)
  with c(1,3) p demo_main show ?thesis by simp
qed

text \<open>
  Claim C3. Over any stretch of epochs of a run, ending normally or in an exception, the
  stored best reward and best picks are either both what they were or the best reward is
  strictly greater than it was; so the best reward never decreases. An episode whose
  reward is not strictly greater than the stored best reward, one that equals it in
  particular, leaves the stored pair as it is.
\<close>

theorem best_only_on_strict_improvement:
  assumes "epochs w a es st = (res, st')"
    and "best_reward st \<noteq> NaN"
  shows "(best_reward st' = best_reward st \<and> best_pi st' = best_pi st
            \<or> fgt (best_reward st') (best_reward st)) \<and>
         fle (best_reward st) (best_reward st') \<and>
         (\<forall>reward pick_idxs s.
            \<not> fgt reward (best_reward s) \<longrightarrow> update_best reward pick_idxs s = s) \<and>
         (\<forall>pick_idxs s. best_pi (update_best (best_reward s) pick_idxs s) = best_pi s)"
proof -
  from epochs_improved [OF assms(1)] have i: "improved st st'" .
  then have "best_reward st' = best_reward st \<and> best_pi st' = best_pi st
            \<or> fgt (best_reward st') (best_reward st)"
    by (simp add: improved_def)
  moreover from i assms(2) have "fle (best_reward st) (best_reward st')"
    by (rule improved_fle)
  ultimately show ?thesis
    by (simp add: update_best_def fgt_irrefl)
qed

text \<open>
  The two epochs of the small world from its first state: the best reward grows from
  \<open>0\<close> to \<open>3 / 4\<close>; a later episode of reward \<open>3 / 4\<close> changes nothing.
\<close>

theorem best_only_on_strict_improvement_witness:
  "best_reward demo_state \<noteq> NaN \<and>
   best_reward (snd (epochs demo_world demo_args [0, 1] demo_state)) = Fin (3 / 4) \<and>
   fgt (best_reward (snd (epochs demo_world demo_args [0, 1] demo_state))) (best_reward demo_state) \<and>
   fle (best_reward demo_state) (best_reward (snd (epochs demo_world demo_args [0, 1] demo_state))) \<and>
   update_best (Fin (3 / 4)) [0, 1] (snd (epochs demo_world demo_args [0, 1] demo_state)) =
     snd (epochs demo_world demo_args [0, 1] demo_state)"
proof -
  let ?r = "epochs demo_world demo_args [0, 1] demo_state"
  have h1: "?r = (fst ?r, snd ?r)" by simp
  have h2: "best_reward demo_state \<noteq> NaN" by (simp add: demo_state_def)
  have b: "best_reward (snd ?r) = Fin (3 / 4)"
    by (simp add: run_defs demo_defs)
  note t = best_only_on_strict_improvement [OF h1 h2]
  from t [THEN conjunct1] b have "fgt (best_reward (snd ?r)) (best_reward demo_state)"
    by (simp add: demo_state_def)
  moreover from t have "fle (best_reward demo_state) (best_reward (snd ?r))" by blast
  moreover from t have "\<not> fgt (Fin (3 / 4)) (best_reward (snd ?r)) \<longrightarrow>
      update_best (Fin (3 / 4)) [0, 1] (snd ?r) = snd ?r"
    by blast
  with b have "update_best (Fin (3 / 4)) [0, 1] (snd ?r) = snd ?r" by simp
  ultimately show ?thesis using h2 b by blast
qed

text \<open>
  Claim C4. In an epoch whose forward pass, sampler and reward function return, the calls
  are: the forward pass, then a sample and a reward computation for each of the
  \<^verbatim>\<open>num_episode\<close> episodes, then \<^verbatim>\<open>zero_grad\<close>, one \<^verbatim>\<open>backward\<close> and one
  \<^verbatim>\<open>optimizer.step()\<close>. The parameters after the epoch are those of one step from
  the parameters before it, on the one cost that holds the term of every episode.
\<close>

theorem one_optimizer_step_per_epoch:
  assumes "dsn w (model st) (features w a) = Inr probs"
    and "bernoulli w probs = None"
    and "map (run_episode w a probs epoch) (py_range 0 (num_episode a)) = map Inr outs"
  shows "\<exists>cost m.
     new_events st (snd (train_epoch w a epoch st)) =
       Forward #
       concat (map (\<lambda>i. [Sample, Reward (number_of_picks a)]) (py_range 0 (num_episode a))) @
       [ZeroGrad, Backward cost, OptStep, Print (epoch + 1) (max_epoch a) m] \<and>
     model (snd (train_epoch w a epoch st)) = Stepped (model st) cost \<and>
     cost = fsub (fmul (beta a) (fsq (fsub (fmean probs) (Fin 0.5))))
              (fsum (map (\<lambda>(log_probs, reward, pick_idxs).
                           fmul (fmean log_probs) (fsub reward (baseline st))) outs))"
proof -
  from train_epoch_ok [OF assms] obtain st1 st2 where
    "train_epoch w a epoch st = write_selection w a st2"
    "st2 = emit (Print (epoch + 1) (max_epoch a) (fmean (map (\<lambda>(lp, r, p). r) outs)))
              (update_baseline (map (\<lambda>(lp, r, p). r) outs)
                 (optimizer_update
                    (epoch_cost_spec (beta a) (fmean probs) (baseline st)
                       (map (\<lambda>(lp, r, p). (fmean lp, r)) outs)) st1))"
    "trace st1 = trace st @ Forward #
        concat (map (\<lambda>j. [Sample, Reward (number_of_picks a)]) (py_range 0 (num_episode a)))"
    "model st1 = model st"
    by blast
  then show ?thesis
    by (simp add: new_events_def epoch_cost_spec_def cost_terms)
qed

text \<open>The epoch of the small world: two episodes, then one step.\<close>

theorem one_optimizer_step_per_epoch_witness:
  "dsn demo_world (model demo_state) (features demo_world demo_args) = Inr demo_probs \<and>
   bernoulli demo_world demo_probs = None \<and>
   map (run_episode demo_world demo_args demo_probs 0) (py_range 0 (num_episode demo_args)) =
     map Inr demo_outs \<and>
   (\<exists>cost m.
      new_events demo_state (snd (train_epoch demo_world demo_args 0 demo_state)) =
        [Forward, Sample, Reward 2, Sample, Reward 2, ZeroGrad, Backward cost, OptStep,
         Print 1 2 m] \<and>
      model (snd (train_epoch demo_world demo_args 0 demo_state)) = Stepped Initial cost)"
proof -
  have h1: "dsn demo_world (model demo_state) (features demo_world demo_args) = Inr demo_probs"
    by (simp add: demo_defs features_def py_slice_def slice_bound_def)
  have h2: "bernoulli demo_world demo_probs = None"
    by (simp add: demo_defs)
  note h3 = demo_run_episode
  have r: "py_range 0 (num_episode demo_args) = [0, 1]"
    by (simp add: demo_defs py_range_def upto.simps)
  from one_optimizer_step_per_epoch [OF h1 h2 h3, unfolded r]
  have "\<exists>cost m.
      new_events demo_state (snd (train_epoch demo_world demo_args 0 demo_state)) =
        [Forward, Sample, Reward 2, Sample, Reward 2, ZeroGrad, Backward cost, OptStep,
         Print 1 2 m] \<and>
      model (snd (train_epoch demo_world demo_args 0 demo_state)) = Stepped Initial cost"
    by (simp add: demo_args_def demo_state_def)
  with h1 h2 h3 show ?thesis by simp
qed



text \<open>
  Claim C6, as the code has it. \<^verbatim>\<open>main.py\<close> makes no finiteness check. In an epoch
  whose forward pass, sampler and reward function return, an episode with a non-finite
  reward or a non-finite mean log-probability does not abort the run at that point:
  every episode of the epoch is run, the cost is not finite, and \<^verbatim>\<open>zero_grad\<close>,
  \<^verbatim>\<open>backward\<close> and the optimizer step are taken on it, before the mean reward is
  printed.
\<close>

theorem nonfinite_values_do_not_abort:
  assumes "dsn w (model st) (features w a) = Inr probs"
    and "bernoulli w probs = None"
    and "map (run_episode w a probs epoch) (py_range 0 (num_episode a)) = map Inr outs"
    and "(log_probs, reward, pick_idxs) \<in> set outs"
    and "\<not> finite_float reward \<or> \<not> finite_float (fmean log_probs)"
  shows "\<exists>cost m.
     \<not> finite_float cost \<and>
     new_events st (snd (train_epoch w a epoch st)) =
       Forward #
       concat (map (\<lambda>i. [Sample, Reward (number_of_picks a)]) (py_range 0 (num_episode a))) @
       [ZeroGrad, Backward cost, OptStep, Print (epoch + 1) (max_epoch a) m] \<and>
     model (snd (train_epoch w a epoch st)) = Stepped (model st) cost"
proof -
  let ?terms = "map (\<lambda>(lp, r, p). fmul (fmean lp) (fsub r (baseline st))) outs"
  let ?cost = "fsub (fmul (beta a) (fsq (fsub (fmean probs) (Fin 0.5)))) (fsum ?terms)"
  from assms(4) have "fmul (fmean log_probs) (fsub reward (baseline st)) \<in> set ?terms"
    by force
  moreover from assms(5)
  have "\<not> finite_float (fmul (fmean log_probs) (fsub reward (baseline st)))"
    by (rule expected_reward_nonfinite)
  ultimately have "\<not> finite_float (fsum ?terms)" by (rule fsum_nonfinite)
  then have nf: "\<not> finite_float ?cost" by (rule fsub_nonfinite_right)
  from train_epoch_ok [OF assms(1,2,3)] obtain st1 st2 where
    te: "train_epoch w a epoch st = write_selection w a st2"
    and st2: "st2 = emit (Print (epoch + 1) (max_epoch a) (fmean (map (\<lambda>(lp, r, p). r) outs)))
              (update_baseline (map (\<lambda>(lp, r, p). r) outs)
                 (optimizer_update
                    (epoch_cost_spec (beta a) (fmean probs) (baseline st)
                       (map (\<lambda>(lp, r, p). (fmean lp, r)) outs)) st1))"
    and tr: "trace st1 = trace st @ Forward #
        concat (map (\<lambda>j. [Sample, Reward (number_of_picks a)]) (py_range 0 (num_episode a)))"
    and m: "model st1 = model st"
    by blast
  have c: "epoch_cost_spec (beta a) (fmean probs) (baseline st)
             (map (\<lambda>(lp, r, p). (fmean lp, r)) outs) = ?cost"
    by (simp add: epoch_cost_spec_def cost_terms)
  from te st2 tr m c
  have "new_events st (snd (train_epoch w a epoch st)) =
       Forward #
       concat (map (\<lambda>i. [Sample, Reward (number_of_picks a)]) (py_range 0 (num_episode a))) @
       [ZeroGrad, Backward ?cost, OptStep,
        Print (epoch + 1) (max_epoch a) (fmean (map (\<lambda>(lp, r, p). r) outs))]"
    and "model (snd (train_epoch w a epoch st)) = Stepped (model st) ?cost"
    by (simp_all add: new_events_def)
  with nf show ?thesis by blast
qed

text \<open>
  The small world with NaN rewards: both episodes are run, the step is taken on a NaN
  cost, and the epoch completes.
\<close>

theorem nonfinite_values_do_not_abort_witness:
  "dsn nan_world (model demo_state) (features nan_world one_epoch_args) = Inr demo_probs \<and>
   bernoulli nan_world demo_probs = None \<and>
   map (run_episode nan_world one_epoch_args demo_probs 0)
     (py_range 0 (num_episode one_epoch_args)) =
     map Inr [([Fin (- 1), Fin (- 1), Fin (- 1)], NaN, [0, 1]),
              ([Fin (- 1), Fin (- 1), Fin (- 1)], NaN, [0, 1])] \<and>
   (\<exists>cost m.
      \<not> finite_float cost \<and>
      new_events demo_state (snd (train_epoch nan_world one_epoch_args 0 demo_state)) =
        [Forward, Sample, Reward 2, Sample, Reward 2, ZeroGrad, Backward cost, OptStep,
         Print 1 1 m] \<and>
      model (snd (train_epoch nan_world one_epoch_args 0 demo_state)) = Stepped Initial cost) \<and>
   fst (train_epoch nan_world one_epoch_args 0 demo_state) = None"
proof -
  let ?outs = "[([Fin (- 1), Fin (- 1), Fin (- 1)], NaN, [0, 1]),
                ([Fin (- 1), Fin (- 1), Fin (- 1)], NaN, [0::int, 1])]"
  have h1: "dsn nan_world (model demo_state) (features nan_world one_epoch_args) = Inr demo_probs"
    by (simp add: nan_world_def one_epoch_args_def demo_defs features_def py_slice_def
        slice_bound_def)
  have h2: "bernoulli nan_world demo_probs = None"
    by (simp add: nan_world_def demo_defs)
  have h3: "map (run_episode nan_world one_epoch_args demo_probs 0)
     (py_range 0 (num_episode one_epoch_args)) = map Inr ?outs"
    by (simp add: nan_world_def one_epoch_args_def demo_defs run_episode_def py_range_def
        upto.simps)
  have h4: "([Fin (- 1), Fin (- 1), Fin (- 1)], NaN, [0, 1]) \<in> set ?outs"
    by simp
  have h5: "\<not> finite_float NaN \<or> \<not> finite_float (fmean [Fin (- 1), Fin (- 1), Fin (- 1)])"
    by simp
  have r: "py_range 0 (num_episode one_epoch_args) = [0, 1]"
    by (simp add: one_epoch_args_def demo_defs py_range_def upto.simps)
  from nonfinite_values_do_not_abort [OF h1 h2 h3 h4 h5, unfolded r]
  have "\<exists>cost m.
      \<not> finite_float cost \<and>
      new_events demo_state (snd (train_epoch nan_world one_epoch_args 0 demo_state)) =
        [Forward, Sample, Reward 2, Sample, Reward 2, ZeroGrad, Backward cost, OptStep,
         Print 1 1 m] \<and>
      model (snd (train_epoch nan_world one_epoch_args 0 demo_state)) = Stepped Initial cost"
    by (simp add: one_epoch_args_def demo_args_def demo_state_def)
  moreover have "fst (train_epoch nan_world one_epoch_args 0 demo_state) = None"
    by (simp add: run_defs nan_world_def one_epoch_args_def demo_defs)
  ultimately show ?thesis using h1 h2 h3 by blast
qed

text \<open>
  Claim C6 as stated fails. In the small world with NaN rewards the run of one epoch does
  not abort at the first NaN reward: the second episode follows, the optimizer steps on
  a NaN cost, the baseline becomes NaN, the selection record is written, and the run
  finishes by saving parameters a step on NaN away from the initial ones.
\<close>

theorem nonfinite_reward_counterexample:
  "compute_reward nan_world (features nan_world one_epoch_args) [True, True, True] demo_probs
     (classes one_epoch_args) (number_of_picks one_epoch_args) = Inr (NaN, [0, 1]) \<and>
   main nan_world one_epoch_args =
     Finished
       \<lparr>model = Stepped Initial NaN, start_epoch = Some 0, baseline = NaN,
        best_reward = Fin 0, best_pi = [], selection = [''selection/0.txt'' \<mapsto> []],
        trace =
          [Forward, Sample, Reward 2, Sample, Reward 2, ZeroGrad, Backward NaN, OptStep,
           Print 1 1 NaN, Save (Stepped Initial NaN)]\<rparr>"
  by (simp add: run_defs nan_world_def one_epoch_args_def demo_defs)




text \<open>
  Claim C8. With a resume path, the state in which the training loop is reached has the
  parameters the checkpoint load returned, and nothing else of it: the baseline is zero,
  the best reward is zero and the best picks are the empty list, whatever the checkpoint
  holds, and no call to the network or the optimizer has been made.
\<close>

theorem resume_restores_parameters_only:
  assumes "resume a \<noteq> []" and "main_init w a = Inr st"
  shows "torch_load w (resume a) = Inr (model st) \<and> baseline st = Fin 0 \<and>
         best_reward st = Fin 0 \<and> best_pi st = [] \<and> trace st = []"
  using main_init_fields [OF assms(2)] assms(1) by simp

text \<open>The small world, resumed: the loaded parameters, a zero baseline, no best picks.\<close>

theorem resume_restores_parameters_only_witness:
  "resume resume_args \<noteq> [] \<and>
   main_init demo_world resume_args =
     Inr \<lparr>model = Stepped Initial (Fin 7), start_epoch = None, baseline = Fin 0,
          best_reward = Fin 0, best_pi = [], selection = Map.empty, trace = []\<rparr> \<and>
   torch_load demo_world (resume resume_args) = Inr (Stepped Initial (Fin 7))"
proof -
  have h1: "resume resume_args \<noteq> []"
    by (simp add: resume_args_def)
  have h2: "main_init demo_world resume_args =
     Inr \<lparr>model = Stepped Initial (Fin 7), start_epoch = None, baseline = Fin 0,
          best_reward = Fin 0, best_pi = [], selection = Map.empty, trace = []\<rparr>"
    by (simp add: main_init_def resume_args_def demo_defs)
  from resume_restores_parameters_only [OF h1 h2]
  have "torch_load demo_world (resume resume_args) = Inr (Stepped Initial (Fin 7))"
    by simp
  with h1 h2 show ?thesis by blast
qed

text \<open>
  Claim C9. With a resume path, \<open>start_epoch\<close> is never bound: a run that gets through
  the loading of the features and of the checkpoint stops at the \<^verbatim>\<open>range\<close> of line 122
  on the unbound name, with the loaded parameters and before any call to the network,
  the reward function or the optimizer; any other such run has failed earlier still.
\<close>

theorem resume_never_trains:
  assumes "resume a \<noteq> []"
  shows "(\<exists>e. main w a = SetupFailed e) \<or>
         (\<exists>st. main w a = Aborted (UnboundLocalError ''start_epoch'') st \<and>
               torch_load w (resume a) = Inr (model st) \<and> trace st = [])"
proof (cases "main_init w a")
  case (Inl e)
  then show ?thesis by (simp add: main_def)
next
  case (Inr st)
  from main_init_fields [OF Inr] assms
  have "start_epoch st = None" "torch_load w (resume a) = Inr (model st)" "trace st = []"
    by simp_all
  with Inr show ?thesis by (simp add: main_def)
qed

text \<open>The small world, resumed: the run stops on the unbound name.\<close>

theorem resume_never_trains_witness:
  "resume resume_args \<noteq> [] \<and>
   main demo_world resume_args =
     Aborted (UnboundLocalError ''start_epoch'')
       \<lparr>model = Stepped Initial (Fin 7), start_epoch = None, baseline = Fin 0,
        best_reward = Fin 0, best_pi = [], selection = Map.empty, trace = []\<rparr>"
proof -
  have h: "resume resume_args \<noteq> []"
    by (simp add: resume_args_def)
  have i: "main_init demo_world resume_args =
     Inr \<lparr>model = Stepped Initial (Fin 7), start_epoch = None, baseline = Fin 0,
          best_reward = Fin 0, best_pi = [], selection = Map.empty, trace = []\<rparr>"
    by (simp add: main_init_def resume_args_def demo_defs)
  from resume_never_trains [OF h, of demo_world]
  have "main demo_world resume_args =
     Aborted (UnboundLocalError ''start_epoch'')
       \<lparr>model = Stepped Initial (Fin 7), start_epoch = None, baseline = Fin 0,
        best_reward = Fin 0, best_pi = [], selection = Map.empty, trace = []\<rparr>"
    using i by (auto simp: main_def)
  with h show ?thesis by blast
qed

text \<open>
  Claim C10. Take the epochs a run has gone through so far, from its first state, the
  last of them possibly ended by an exception, and let every reward the reward function
  has returned in them be at most zero, the initial best reward. Then the best reward is
  still zero and the best picks are still the empty list. If these epochs all completed,
  the selection file \<^verbatim>\<open>selection/<start>.txt\<close> holds no line. And a next epoch whose
  collaborators return, with rewards at most zero again, and whose file opens and
  closes, completes without an exception and writes the file with no line in it.
\<close>

theorem empty_selection_without_positive_reward:
  assumes "main_init w a = Inr st0"
    and "epochs w a es st0 = (res, st)"
    and "\<forall>reward \<in> set (run_rewards w a es st0). fle reward (Fin 0)"
  shows "best_reward st = Fin 0 \<and> best_pi st = [] \<and>
         (res = None \<and> es \<noteq> [] \<longrightarrow>
            selection st (''selection/'' @ str_int (start_idx a) @ ''.txt'') = Some []) \<and>
         (\<forall>epoch probs outs.
            dsn w (model st) (features w a) = Inr probs \<and> bernoulli w probs = None \<and>
            map (run_episode w a probs epoch) (py_range 0 (num_episode a)) = map Inr outs \<and>
            (\<forall>(log_probs, reward, pick_idxs) \<in> set outs. fle reward (Fin 0)) \<and>
            file_open w (''selection/'' @ str_int (start_idx a) @ ''.txt'') = None \<and>
            file_close w (''selection/'' @ str_int (start_idx a) @ ''.txt'') = None \<longrightarrow>
            (\<exists>st'. train_epoch w a epoch st = (None, st') \<and> best_reward st' = Fin 0 \<and>
               best_pi st' = [] \<and>
               selection st' =
                 (selection st)(''selection/'' @ str_int (start_idx a) @ ''.txt'' \<mapsto> [])))"
proof -
  from main_init_fields [OF assms(1)]
  have f: "best_reward st0 = Fin 0" "best_pi st0 = []" by simp_all
  from epochs_quiet [OF assms(2,3) f]
  have b: "best_reward st = Fin 0" "best_pi st = []"
    "res = None \<and> es \<noteq> [] \<longrightarrow> selection st (selection_path a) = Some []"
    by simp_all
  have "\<exists>st'. train_epoch w a epoch st = (None, st') \<and> best_reward st' = Fin 0 \<and>
          best_pi st' = [] \<and> selection st' = (selection st)(selection_path a \<mapsto> [])"
    if "dsn w (model st) (features w a) = Inr probs" "bernoulli w probs = None"
      "map (run_episode w a probs epoch) (py_range 0 (num_episode a)) = map Inr outs"
      "\<forall>(lp, r, p) \<in> set outs. fle r (Fin 0)"
      "file_open w (selection_path a) = None" "file_close w (selection_path a) = None"
    for epoch probs outs
    using train_epoch_quiet_total [OF that b(1,2)] .
  with b show ?thesis
    unfolding selection_path_def by blast
qed

text \<open>
  The small world whose reward function answers zero where it is asked and a positive
  reward elsewhere: after two epochs of one episode the picks offered have not been
  stored, the file is empty, and a third epoch completes and leaves it empty.
\<close>

theorem empty_selection_without_positive_reward_witness:
  "main_init zero_world one_episode_args = Inr fresh_state \<and>
   fst (epochs zero_world one_episode_args [0, 1] fresh_state) = None \<and>
   run_rewards zero_world one_episode_args [0, 1] fresh_state = [Fin 0, Fin 0] \<and>
   compute_reward zero_world (features zero_world one_episode_args) [False, False, False]
     demo_probs 2 2 = Inr (Fin (3 / 4), [1, 2]) \<and>
   best_reward (snd (epochs zero_world one_episode_args [0, 1] fresh_state)) = Fin 0 \<and>
   best_pi (snd (epochs zero_world one_episode_args [0, 1] fresh_state)) = [] \<and>
   selection (snd (epochs zero_world one_episode_args [0, 1] fresh_state)) ''selection/0.txt'' =
     Some [] \<and>
   (\<exists>st'. train_epoch zero_world one_episode_args 2
            (snd (epochs zero_world one_episode_args [0, 1] fresh_state)) = (None, st') \<and>
      best_pi st' = [])"
proof -
  let ?w = zero_world and ?a = one_episode_args
  let ?run = "epochs ?w ?a [0, 1] fresh_state"
  let ?outs = "[([Fin (- 1), Fin (- 1), Fin (- 1)], Fin 0, [0::int, 1])]"
  note defs = zero_world_def one_episode_args_def fresh_state_def demo_defs
  have h1: "main_init ?w ?a = Inr fresh_state"
    by (simp add: main_init_def defs)
  have n: "fst ?run = None"
    by (simp add: run_defs defs)
  then have h2: "?run = (None, snd ?run)"
    by (metis prod.collapse)
  have rr: "run_rewards ?w ?a [0, 1] fresh_state = [Fin 0, Fin 0]"
    by (simp add: epoch_rewards_def run_defs defs)
  then have h3: "\<forall>reward \<in> set (run_rewards ?w ?a [0, 1] fresh_state). fle reward (Fin 0)"
    by simp
  have pos: "compute_reward ?w (features ?w ?a) [False, False, False] demo_probs 2 2 =
      Inr (Fin (3 / 4), [1, 2])"
    by (simp add: defs)
  have path: "''selection/'' @ str_int (start_idx ?a) @ ''.txt'' = ''selection/0.txt''"
    by (simp add: defs str_int_def str_nat.simps)
  note t = empty_selection_without_positive_reward [OF h1 h2 h3, unfolded path]
  have g1: "dsn ?w (model (snd ?run)) (features ?w ?a) = Inr demo_probs"
    by (simp add: defs features_def py_slice_def slice_bound_def)
  have g2: "bernoulli ?w demo_probs = None"
    by (simp add: defs)
  have g3: "map (run_episode ?w ?a demo_probs 2) (py_range 0 (num_episode ?a)) = map Inr ?outs"
    by (simp add: defs run_episode_def py_range_def upto.simps)
  have g4: "\<forall>(log_probs, reward, pick_idxs) \<in> set ?outs. fle reward (Fin 0)"
    by simp
  have g5: "file_open ?w ''selection/0.txt'' = None" "file_close ?w ''selection/0.txt'' = None"
    by (simp_all add: defs)
  from t [THEN conjunct2, THEN conjunct2, THEN conjunct2, rule_format, of demo_probs 2 ?outs]
    g1 g2 g3 g4 g5
  have "\<exists>st'. train_epoch ?w ?a 2 (snd ?run) = (None, st') \<and> best_pi st' = []"
    by blast
  moreover from t [THEN conjunct2, THEN conjunct2, THEN conjunct1]
  have "selection (snd ?run) ''selection/0.txt'' = Some []"
    by simp
  moreover from t have "best_reward (snd ?run) = Fin 0" "best_pi (snd ?run) = []"
    by blast+
  ultimately show ?thesis using h1 n rr pos by blast
qed

end
